theory Spec2Isabelle
  imports Complex_Main "HOL-Library.Multiset"
begin

section \<open>The categorical scatter plot renderer (catscat.js)\<close>

text \<open>
  A shallow embedding of \<^verbatim>\<open>superset/assets/visualizations/catscat.js\<close>.  The file is
  JavaScript on top of d3 (version 3): the functions of the file are translated one by
  one; the few d3 operations and JavaScript primitives they call are translated from
  their d3 3.5 source and from ECMAScript, each with the code it stands for in its
  comment.  Container sizes, y values and box widths are JavaScript numbers read as
  exact rationals.
\<close>

subsection \<open>JavaScript numbers and values\<close>

text \<open>
  The numbers the comparator of \<^verbatim>\<open>sortData\<close> computes with: a finite value, one of the
  two infinities, or NaN.
\<close>

datatype jsnum = NaN | NegInf | Fin rat | PosInf

text \<open>The binary \<^verbatim>\<open>-\<close> of JavaScript on these numbers.\<close>

fun js_sub :: "jsnum \<Rightarrow> jsnum \<Rightarrow> jsnum" where
  "js_sub NaN _ = NaN"
| "js_sub _ NaN = NaN"
| "js_sub PosInf PosInf = NaN"
| "js_sub NegInf NegInf = NaN"
| "js_sub PosInf _ = PosInf"
| "js_sub NegInf _ = NegInf"
| "js_sub (Fin a) PosInf = NegInf"
| "js_sub (Fin a) NegInf = PosInf"
| "js_sub (Fin a) (Fin b) = Fin (a - b)"

text \<open>\<^verbatim>\<open>v > 0\<close>: false for NaN.\<close>

fun js_pos :: "jsnum \<Rightarrow> bool" where
  "js_pos PosInf = True"
| "js_pos (Fin a) = (0 < a)"
| "js_pos _ = False"

text \<open>\<^verbatim>\<open>!v\<close> on a number: true for 0 and for NaN.\<close>

fun js_not :: "jsnum \<Rightarrow> bool" where
  "js_not NaN = True"
| "js_not (Fin a) = (a = 0)"
| "js_not _ = False"

text \<open>
  \<^verbatim>\<open>n % d\<close> on finite numbers: NaN for a zero divisor, else the remainder of the
  division truncated towards zero (the sign of the dividend).
\<close>

definition js_rem :: "rat \<Rightarrow> rat \<Rightarrow> jsnum" where
  "js_rem n d =
     (if d = 0 then NaN
      else Fin (n - d * of_int (if 0 \<le> n / d then \<lfloor>n / d\<rfloor> else \<lceil>n / d\<rceil>)))"

text \<open>
  The values a category attribute of a Point, or the default of \<^verbatim>\<open>pickFirst\<close>, can be:
  \<^verbatim>\<open>null\<close> or a string (a category key).
\<close>

datatype jsval = Null | Str string

text \<open>
  The unary \<^verbatim>\<open>+\<close> (ToNumber): \<^verbatim>\<open>+null\<close> is 0.  On a string it is ECMAScript's
  StringToNumber, which is no code of this file: the function \<open>strnum\<close> stands for it
  and every result below holds for any such function.
\<close>

fun to_number :: "(string \<Rightarrow> jsnum) \<Rightarrow> jsval \<Rightarrow> jsnum" where
  "to_number strnum Null = Fin 0"
| "to_number strnum (Str s) = strnum s"

subsection \<open>The data model\<close>

record point =
  p_y :: rat
  p_color :: string
  p_shape :: string
  p_entity :: string

record series =
  s_key :: string
  s_values :: "point list"

text \<open>The attribute names used with \<^verbatim>\<open>pickFirst\<close>, as field accessors.\<close>

definition color :: "point \<Rightarrow> jsval" where
  "color p = Str (p_color p)"

subsection \<open>pickFirst and sortData\<close>

text \<open>
  \<^verbatim>\<open>return array.length > 0 ? array[0][attr] : defaultValue;\<close>
\<close>

definition pickFirst :: "point list \<Rightarrow> (point \<Rightarrow> jsval) \<Rightarrow> jsval \<Rightarrow> jsval" where
  "pickFirst array attr defaultValue =
     (if length array > 0 then attr (array ! 0) else defaultValue)"

text \<open>
  The comparator of \<^verbatim>\<open>sortData\<close>, with the default \<^verbatim>\<open>defaultValue = null\<close> of
  \<^verbatim>\<open>pickFirst\<close>:
  \<^verbatim>\<open>(a, b) => +pickFirst(a.values, sortBy) - +pickFirst(b.values, sortBy)\<close>
\<close>

definition comparator ::
  "(string \<Rightarrow> jsnum) \<Rightarrow> (point \<Rightarrow> jsval) \<Rightarrow> series \<Rightarrow> series \<Rightarrow> jsnum" where
  "comparator strnum sortBy a b =
     js_sub (to_number strnum (pickFirst (s_values a) sortBy Null))
            (to_number strnum (pickFirst (s_values b) sortBy Null))"

text \<open>
  \<^verbatim>\<open>Array.prototype.sort(comparefn)\<close>.  ECMAScript requires a stable sort; a NaN from
  the comparator counts as 0, so an element moves behind another only when the
  comparator is positive.  The sort is written as the insertion sort: for a consistent
  comparator every stable sort has the same result, and for an inconsistent one
  ECMAScript leaves the order to the implementation.
\<close>

fun sort_insert :: "('a \<Rightarrow> 'a \<Rightarrow> jsnum) \<Rightarrow> 'a \<Rightarrow> 'a list \<Rightarrow> 'a list" where
  "sort_insert cmp x [] = [x]"
| "sort_insert cmp x (y # ys) =
     (if js_pos (cmp x y) then y # sort_insert cmp x ys else x # y # ys)"

fun array_sort :: "('a \<Rightarrow> 'a \<Rightarrow> jsnum) \<Rightarrow> 'a list \<Rightarrow> 'a list" where
  "array_sort cmp [] = []"
| "array_sort cmp (x # xs) = sort_insert cmp x (array_sort cmp xs)"

text \<open>
  Arrays are objects: the dataset lives in the heap at an address, and
  \<^verbatim>\<open>data.sort(...); return data;\<close> overwrites the array at that address and returns the
  same address.
\<close>

type_synonym addr = nat
type_synonym heap = "addr \<Rightarrow> series list"

definition sortData ::
  "(string \<Rightarrow> jsnum) \<Rightarrow> addr \<Rightarrow> (point \<Rightarrow> jsval) \<Rightarrow> heap \<Rightarrow> addr \<times> heap" where
  "sortData strnum data sortBy h =
     (data, h(data := array_sort (comparator strnum sortBy) (h data)))"

subsection \<open>d3.min, d3.max, d3.range\<close>

text \<open>
  \<^verbatim>\<open>d3.max(array, f)\<close>: the first loop skips the values that are undefined, the second
  keeps the greatest of the rest.  \<open>None\<close> is \<^verbatim>\<open>undefined\<close>, which is also the result
  for an array with no defined value.
  \<^verbatim>\<open>
  while (++i < n) if ((b = f.call(array, array[i], i)) != null && b >= b) { a = b; break; }
  while (++i < n) if ((b = f.call(array, array[i], i)) != null && b > a) a = b;
  return a;
  \<close>
\<close>

fun d3_max_rest :: "'a::linorder \<Rightarrow> 'a option list \<Rightarrow> 'a" where
  "d3_max_rest a [] = a"
| "d3_max_rest a (None # bs) = d3_max_rest a bs"
| "d3_max_rest a (Some b # bs) = d3_max_rest (if b > a then b else a) bs"

fun d3_max :: "'a::linorder option list \<Rightarrow> 'a option" where
  "d3_max [] = None"
| "d3_max (None # bs) = d3_max bs"
| "d3_max (Some b # bs) = Some (d3_max_rest b bs)"

text \<open>\<^verbatim>\<open>d3.min\<close> is the same with \<^verbatim>\<open>a > b\<close> in the second loop.\<close>

fun d3_min_rest :: "'a::linorder \<Rightarrow> 'a option list \<Rightarrow> 'a" where
  "d3_min_rest a [] = a"
| "d3_min_rest a (None # bs) = d3_min_rest a bs"
| "d3_min_rest a (Some b # bs) = d3_min_rest (if a > b then b else a) bs"

fun d3_min :: "'a::linorder option list \<Rightarrow> 'a option" where
  "d3_min [] = None"
| "d3_min (None # bs) = d3_min bs"
| "d3_min (Some b # bs) = Some (d3_min_rest b bs)"

text \<open>\<^verbatim>\<open>d3.range(n)\<close> is \<open>[0, 1, ..., n - 1]\<close>.\<close>

definition d3_range :: "nat \<Rightarrow> nat list" where
  "d3_range n = [0..<n]"

subsection \<open>computeTickInterval\<close>

datatype error = TypeError

text \<open>
  \<^verbatim>\<open>Number.prototype.toString\<close> on an array index: its decimal digits.  (JavaScript
  writes an integer in plain decimal digits up to \<open>10\<^sup>2\<^sup>1\<close>; an array has fewer than
  \<open>2\<^sup>3\<^sup>2\<close> elements.)
\<close>

definition digit_char :: "nat \<Rightarrow> char" where
  "digit_char d = ''0123456789'' ! d"

function toString :: "nat \<Rightarrow> string" where
  "toString n = (if n < 10 then [digit_char n] else toString (n div 10) @ [digit_char (n mod 10)])"
  by pat_completeness auto
termination
  by (relation "measure id") auto

declare toString.simps [simp del]

text \<open>
  \<^verbatim>\<open>for (let i = 0; i < nDigits - 1; i++) { interval = 10 * interval; }\<close>
\<close>

function tick_loop :: "int \<Rightarrow> int \<Rightarrow> rat \<Rightarrow> rat" where
  "tick_loop i nDigits interval =
     (if i < nDigits - 1 then tick_loop (i + 1) nDigits (10 * interval) else interval)"
  by pat_completeness auto
termination
  by (relation "measure (\<lambda>(i, nDigits, interval). nat (nDigits - 1 - i))") auto

declare tick_loop.simps [simp del]

text \<open>
  \<^verbatim>\<open>d3.max(data)\<close> of the empty array is \<^verbatim>\<open>undefined\<close>, and
  \<^verbatim>\<open>maxValue.toString()\<close> then throws a TypeError.
\<close>

definition computeTickInterval :: "nat list \<Rightarrow> error + rat" where
  "computeTickInterval data =
     (case d3_max (map Some data) of
        None \<Rightarrow> Inl TypeError
      | Some maxValue \<Rightarrow>
          let nDigits = length (toString maxValue);
              interval = tick_loop 0 (int nDigits) 1
          in Inr (interval / 2))"

text \<open>
  \<^verbatim>\<open>xScale.domain().filter(d => {return !(d % interval);})\<close>
\<close>

definition tick_filter :: "rat \<Rightarrow> nat list \<Rightarrow> nat list" where
  "tick_filter interval is = filter (\<lambda>d. js_not (js_rem (of_nat d) interval)) is"

subsection \<open>d3.scale.ordinal\<close>

text \<open>
  An ordinal scale of d3: its domain, its range, and which of \<^verbatim>\<open>range\<close> and
  \<^verbatim>\<open>rangePoints\<close> set the range.  The index of d3 maps a domain value to its 1-based
  position in the domain.
\<close>

datatype ranger = Range | RangePoints

record ('d, 'r) ordinal =
  o_domain :: "'d list"
  o_range :: "'r list"
  o_ranger :: ranger

text \<open>
  \<^verbatim>\<open>scale.domain(x)\<close> keeps the first occurrence of every value:
  \<^verbatim>\<open>while (++i < n) if (!index.has(xi = x[i])) index.set(xi, domain.push(xi));\<close>
\<close>

fun domain_push :: "'d list \<Rightarrow> 'd list \<Rightarrow> 'd list" where
  "domain_push dm [] = dm"
| "domain_push dm (xi # x) = domain_push (if xi \<in> set dm then dm else dm @ [xi]) x"

text \<open>
  \<^verbatim>\<open>
  scale.rangePoints = function(x, padding) {
    if (arguments.length < 2) padding = 0;
    var start = x[0], stop = x[1],
        step = domain.length < 2 ? (start = (start + stop) / 2, 0)
                                 : (stop - start) / (domain.length - 1 + padding);
    range = steps(start + step * padding / 2, step);
  \<close>
  with \<^verbatim>\<open>steps(start, step) = d3.range(domain.length).map(i => start + step * i)\<close>;
  the file calls it with no padding.
\<close>

definition rangePoints :: "'d list \<Rightarrow> rat \<times> rat \<Rightarrow> ('d, rat) ordinal" where
  "rangePoints dm x =
     (let n = length dm;
          start = (if n < 2 then (fst x + snd x) / 2 else fst x);
          step = (if n < 2 then 0 else (snd x - fst x) / (of_nat n - 1))
      in \<lparr>o_domain = dm,
          o_range = map (\<lambda>i. start + step * of_nat i) (d3_range n),
          o_ranger = RangePoints\<rparr>)"

fun index_of :: "'d \<Rightarrow> 'd list \<Rightarrow> nat option" where
  "index_of x [] = None"
| "index_of x (y # ys) = (if x = y then Some 0 else map_option Suc (index_of x ys))"

text \<open>\<^verbatim>\<open>range[k % range.length]\<close>: \<^verbatim>\<open>undefined\<close> for an empty range.\<close>

definition range_at :: "'r list \<Rightarrow> nat \<Rightarrow> 'r option" where
  "range_at rg k = (if rg = [] then None else Some (rg ! (k mod length rg)))"

text \<open>
  Calling the scale:
  \<^verbatim>\<open>
  return range[((index.get(x) || (ranger.t === "range" ? index.set(x, domain.push(x)) : NaN))
                - 1) % range.length];
  \<close>
  A value that is not in the domain extends the domain of a \<^verbatim>\<open>range\<close> scale, so a call
  returns the scale too.
\<close>

definition ordinal_call :: "('d, 'r) ordinal \<Rightarrow> 'd \<Rightarrow> 'r option \<times> ('d, 'r) ordinal" where
  "ordinal_call sc x =
     (case index_of x (o_domain sc) of
        Some i \<Rightarrow> (range_at (o_range sc) i, sc)
      | None \<Rightarrow>
          (case o_ranger sc of
             Range \<Rightarrow> (range_at (o_range sc) (length (o_domain sc)),
                        sc\<lparr>o_domain := o_domain sc @ [x]\<rparr>)
           | RangePoints \<Rightarrow> (None, sc)))"

text \<open>\<^verbatim>\<open>d3.svg.symbolTypes\<close>\<close>

definition symbolTypes :: "string list" where
  "symbolTypes =
     [''circle'', ''cross'', ''diamond'', ''square'', ''triangle-down'', ''triangle-up'']"

subsection \<open>d3.scale.linear\<close>

text \<open>
  A linear scale with a two-point domain and range.  An end of the domain is \<open>None\<close>
  when \<^verbatim>\<open>d3.min\<close> or \<^verbatim>\<open>d3.max\<close> returned \<^verbatim>\<open>undefined\<close>.
\<close>

record linear =
  l_domain :: "rat option \<times> rat option"
  l_range :: "rat \<times> rat"

text \<open>
  Calling the scale is \<^verbatim>\<open>i(u(x))\<close> with
  \<^verbatim>\<open>
  function d3_uninterpolateNumber(a, b) {
    b = (b -= a = +a) || 1 / b;
    return function(x) { return (x - a) / b; };
  }
  function d3_interpolateNumber(a, b) {
    a = +a, b = +b;
    return function(t) { return a * (1 - t) + b * t; };
  }
  \<close>
  An undefined end of the domain makes every result NaN.  On a domain of one point
  \<^verbatim>\<open>b\<close> is \<^verbatim>\<open>1 / 0\<close>, infinite, so \<^verbatim>\<open>u(x)\<close> is 0 for every finite \<^verbatim>\<open>x\<close>.
\<close>

definition linear_call :: "linear \<Rightarrow> rat \<Rightarrow> jsnum" where
  "linear_call sc x =
     (case l_domain sc of
        (Some a, Some b) \<Rightarrow>
          let t = (if b - a = 0 then 0 else (x - a) / (b - a))
          in Fin (fst (l_range sc) * (1 - t) + snd (l_range sc) * t)
      | _ \<Rightarrow> NaN)"

subsection \<open>d3.set\<close>

text \<open>
  d3 3.5 keeps a set as the property names of an object made by
  \<^verbatim>\<open>Object.create(null)\<close>; only the names matter here, so the object is the list of its
  property names in the order of their creation.
  \<^verbatim>\<open>
  var d3_map_proto = "__proto__", d3_map_zero = "\x00";
  function d3_map_escape(key) {
    return (key += "") === d3_map_proto || key[0] === d3_map_zero ? d3_map_zero + key : key;
  }
  function d3_map_unescape(key) {
    return (key += "")[0] === d3_map_zero ? key.slice(1) : key;
  }
  \<close>
\<close>

type_synonym js_object = "string list"

definition d3_map_zero :: char where
  "d3_map_zero = CHR 0x00"

definition d3_map_escape :: "string \<Rightarrow> string" where
  "d3_map_escape key =
     (if key = ''__proto__'' \<or> (key \<noteq> [] \<and> hd key = d3_map_zero)
      then d3_map_zero # key else key)"

definition d3_map_unescape :: "string \<Rightarrow> string" where
  "d3_map_unescape key = (if key \<noteq> [] \<and> hd key = d3_map_zero then tl key else key)"

text \<open>
  \<^verbatim>\<open>add: function(key) { this._[d3_map_escape(key += "")] = true; return key; }\<close>:
  assigning to a property that exists leaves its place in the order of creation.
\<close>

definition set_add :: "js_object \<Rightarrow> string \<Rightarrow> js_object" where
  "set_add obj key =
     (let k = d3_map_escape key in if k \<in> set obj then obj else obj @ [k])"

text \<open>
  \<^verbatim>\<open>d3.set(array)\<close>:
  \<^verbatim>\<open>for (var i = 0, n = array.length; i < n; ++i) set.add(array[i]);\<close>
\<close>

fun d3_set_from :: "js_object \<Rightarrow> string list \<Rightarrow> js_object" where
  "d3_set_from obj [] = obj"
| "d3_set_from obj (v # array) = d3_set_from (set_add obj v) array"

definition d3_set :: "string list \<Rightarrow> js_object" where
  "d3_set array = d3_set_from [] array"

text \<open>
  \<^verbatim>\<open>for (var key in this._)\<close> visits the property names in the order of ECMAScript's
  OrdinaryOwnPropertyKeys: first the names that are array indices (the canonical decimal
  form of an integer below \<open>2\<^sup>3\<^sup>2 - 1\<close>) in ascending numeric order, then the other
  names in the order of their creation.
\<close>

definition digit_of :: "char \<Rightarrow> nat option" where
  "digit_of c =
     (let n = (of_char c :: nat) in if 48 \<le> n \<and> n \<le> 57 then Some (n - 48) else None)"

fun parse_digits :: "nat \<Rightarrow> string \<Rightarrow> nat option" where
  "parse_digits acc [] = Some acc"
| "parse_digits acc (c # cs) =
     (case digit_of c of None \<Rightarrow> None | Some d \<Rightarrow> parse_digits (10 * acc + d) cs)"

definition index_value :: "string \<Rightarrow> nat option" where
  "index_value s =
     (if s = [] then None
      else case parse_digits 0 s of
             None \<Rightarrow> None
           | Some n \<Rightarrow> if int n < 4294967295 \<and> toString n = s then Some n else None)"

definition is_array_index :: "string \<Rightarrow> bool" where
  "is_array_index s = (index_value s \<noteq> None)"

definition index_num :: "string \<Rightarrow> nat" where
  "index_num s = (case index_value s of None \<Rightarrow> 0 | Some n \<Rightarrow> n)"

definition for_in :: "js_object \<Rightarrow> string list" where
  "for_in obj =
     sort_key index_num (filter is_array_index obj)
     @ filter (\<lambda>k. \<not> is_array_index k) obj"

text \<open>
  \<^verbatim>\<open>set.values()\<close>:
  \<^verbatim>\<open>var keys = []; for (var key in this._) keys.push(d3_map_unescape(key)); return keys;\<close>
\<close>

definition set_values :: "js_object \<Rightarrow> string list" where
  "set_values obj = map d3_map_unescape (for_in obj)"

subsection \<open>computedProps\<close>

record formData =
  scheme :: string
  x_axis_label :: string
  y_axis_label :: string
  y_axis_format :: string

record padding =
  pad_top :: rat
  pad_left :: rat
  pad_right :: rat
  pad_bottom :: rat

text \<open>
  The object \<^verbatim>\<open>computedProps\<close> returns.  \<^verbatim>\<open>sortedData\<close> is the address of the array
  \<^verbatim>\<open>sortData\<close> returned; \<^verbatim>\<open>yFormat\<close>, which the file never reads, is left out.
\<close>

record props =
  padding :: padding
  sortedData :: addr
  plotWidth :: rat
  plotHeight :: rat
  yScale :: linear
  xScale :: "(nat, rat) ordinal"
  xTicks :: "nat list"
  shapeScale :: "(string, string) ordinal"
  shapeValues :: "string list"
  colorValues :: "string list"
  displayXAxis :: bool
  xlabelHeight :: rat
  legendWidth :: rat

text \<open>
  \<^verbatim>\<open>d3.scale.ordinal().domain(shapeValues).range(d3.svg.symbolTypes)\<close>
\<close>

definition ordinal_range :: "'d list \<Rightarrow> 'r list \<Rightarrow> ('d, 'r) ordinal" where
  "ordinal_range dm rg = \<lparr>o_domain = dm, o_range = rg, o_ranger = Range\<rparr>"

text \<open>
  The function reads \<^verbatim>\<open>data\<close> after \<^verbatim>\<open>sortData\<close> has sorted it in place, so the
  scans for the colors and shapes run over the sorted array.  The tick interval is
  computed last, and its TypeError leaves the heap as \<^verbatim>\<open>sortData\<close> left it.
\<close>

definition computedProps ::
  "(string \<Rightarrow> jsnum) \<Rightarrow> formData \<Rightarrow> addr \<Rightarrow> rat \<Rightarrow> rat \<Rightarrow> heap \<Rightarrow> (error + props) \<times> heap" where
  "computedProps strnum fd data width height h =
     (let pad = \<lparr>pad_top = 20, pad_left = 60, pad_right = 20, pad_bottom = 60\<rparr>;
          plotWidth' = width - (pad_right pad + pad_left pad);
          legendWidth' = plotWidth';
          legendHeight = height * (7 / 100);
          xlabelHeight' = height * (3 / 100);
          plotHeight' = height - (pad_top pad + pad_bottom pad + legendHeight + xlabelHeight');
          (sortedData', h') = sortData strnum data color h;
          yMin = d3_min (map (\<lambda>d. d3_min (map (\<lambda>v. Some (p_y v)) (s_values d))) (h' sortedData'));
          yMax = d3_max (map (\<lambda>d. d3_max (map (\<lambda>v. Some (p_y v)) (s_values d))) (h' sortedData'));
          yScale' = \<lparr>l_domain = (yMin, yMax), l_range = (plotHeight', 0)\<rparr>;
          xScale' = rangePoints (domain_push [] (d3_range (length (h' sortedData')))) (0, plotWidth');
          colorValuesAll = map (\<lambda>d. map p_color (s_values d)) (h' data);
          colorValues' = set_values (d3_set (concat colorValuesAll));
          shapeValuesAll = map (\<lambda>d. map p_shape (s_values d)) (h' data);
          shapeValues' = set_values (d3_set (concat shapeValuesAll));
          shapeScale' = ordinal_range (domain_push [] shapeValues') symbolTypes;
          displayXAxis' = True
      in case computeTickInterval (o_domain xScale') of
           Inl e \<Rightarrow> (Inl e, h')
         | Inr interval \<Rightarrow>
             (Inr \<lparr>padding = pad,
                   sortedData = sortedData',
                   plotWidth = plotWidth',
                   plotHeight = plotHeight',
                   yScale = yScale',
                   xScale = xScale',
                   xTicks = tick_filter interval (o_domain xScale'),
                   shapeScale = shapeScale',
                   shapeValues = shapeValues',
                   colorValues = colorValues',
                   displayXAxis = displayXAxis',
                   xlabelHeight = xlabelHeight',
                   legendWidth = legendWidth'\<rparr>, h'))"

subsection \<open>The legend\<close>

text \<open>
  A legend key is a group with a symbol and a text: a circle filled with a color of the
  scheme for a color key, a symbol path of the type the shape scale gives for a shape
  key.  Its \<^verbatim>\<open>transform\<close> is set by \<^verbatim>\<open>fixUpLegend\<close>.
\<close>

datatype 'c key_symbol = Circle 'c | SymbolPath "string option"

datatype key_class = ColorKey | ShapeKey

record 'c legend_key =
  k_class :: key_class
  k_symbol :: "'c key_symbol"
  k_text :: string
  k_transform :: "(rat \<times> rat) option"

text \<open>
  What the file takes from outside: StringToNumber of ECMAScript, the color lookup
  \<^verbatim>\<open>getColorFromScheme(value, scheme)\<close> of the colors module, and the width of the
  bounding box the browser measures for a rendered key (\<^verbatim>\<open>getBBox().width\<close>).
\<close>

record 'c env =
  StringToNumber :: "string \<Rightarrow> jsnum"
  getColorFromScheme :: "string \<Rightarrow> string \<Rightarrow> 'c"
  getBBox_width :: "'c legend_key \<Rightarrow> rat"

text \<open>
  The loop of \<^verbatim>\<open>fixUpLegend\<close> over the boxes, with its three variables as the state:
  \<^verbatim>\<open>
  bboxes.forEach((bbox) => {
    if (currentX + bbox.width >= legendWidth) {
      currentX = 0;
      currentY += paddingY;
    }
    const nextPos = { x: currentX, y: currentY };
    adjustments.push(nextPos);
    currentX += (bbox.width + paddingX);
  });
  \<close>
\<close>

definition paddingY :: rat where
  "paddingY = 20"

definition paddingX :: rat where
  "paddingX = 16"

record fix_state =
  currentX :: rat
  currentY :: rat
  adjustments :: "(rat \<times> rat) list"

definition place_key :: "rat \<Rightarrow> fix_state \<Rightarrow> rat \<Rightarrow> fix_state" where
  "place_key legendWidth' st bbox_width =
     (let st1 = (if currentX st + bbox_width \<ge> legendWidth'
                 then st\<lparr>currentX := 0, currentY := currentY st + paddingY\<rparr>
                 else st);
          nextPos = (currentX st1, currentY st1)
      in st1\<lparr>adjustments := adjustments st1 @ [nextPos],
              currentX := currentX st1 + (bbox_width + paddingX)\<rparr>)"

fun place_keys :: "rat \<Rightarrow> fix_state \<Rightarrow> rat list \<Rightarrow> fix_state" where
  "place_keys legendWidth' st [] = st"
| "place_keys legendWidth' st (bbox_width # bboxes) =
     place_keys legendWidth' (place_key legendWidth' st bbox_width) bboxes"

text \<open>The positions \<^verbatim>\<open>fixUpLegend\<close> computes for boxes of the given widths.\<close>

definition legend_adjustments :: "rat \<Rightarrow> rat list \<Rightarrow> (rat \<times> rat) list" where
  "legend_adjustments legendWidth' bboxes =
     adjustments (place_keys legendWidth'
       \<lparr>currentX = 0, currentY = paddingY, adjustments = []\<rparr> bboxes)"

text \<open>
  The legend group: its \<^verbatim>\<open>transform\<close> and its keys in document order.
\<close>

record 'c legend =
  legend_transform :: "(rat \<times> rat) option"
  legend_keys :: "'c legend_key list"

text \<open>
  \<^verbatim>\<open>fixUpLegend\<close> moves the legend, measures every \<^verbatim>\<open>.key\<close> in document order and
  sets the \<^verbatim>\<open>transform\<close> of the i-th key to the i-th adjustment; the loop makes one
  adjustment for each key.
\<close>

definition fixUpLegend ::
  "'c env \<Rightarrow> 'c legend \<Rightarrow> rat \<Rightarrow> rat \<Rightarrow> rat \<Rightarrow> 'c legend" where
  "fixUpLegend env legend plotHeight' legendWidth' xlabelHeight' =
     (let bboxes = map (getBBox_width env) (legend_keys legend);
          adjs = legend_adjustments legendWidth' bboxes
      in \<lparr>legend_transform = Some (0, plotHeight' + xlabelHeight'),
          legend_keys = map (\<lambda>(k, pos). k\<lparr>k_transform := Some pos\<rparr>)
                            (zip (legend_keys legend) adjs)\<rparr>)"

text \<open>
  \<^verbatim>\<open>renderLegend\<close>: the legend group is new and empty, so each data join enters one key
  for each value: the color keys first, then the shape keys.
\<close>

definition renderLegend :: "'c env \<Rightarrow> formData \<Rightarrow> props \<Rightarrow> 'c legend" where
  "renderLegend env fd pr =
     (let colorsEnter =
            map (\<lambda>d. \<lparr>k_class = ColorKey,
                       k_symbol = Circle (getColorFromScheme env d (scheme fd)),
                       k_text = d,
                       k_transform = None\<rparr>) (colorValues pr);
          shapesEnter =
            map (\<lambda>d. \<lparr>k_class = ShapeKey,
                       k_symbol = SymbolPath (fst (ordinal_call (shapeScale pr) d)),
                       k_text = d,
                       k_transform = None\<rparr>) (shapeValues pr)
      in fixUpLegend env
           \<lparr>legend_transform = None, legend_keys = colorsEnter @ shapesEnter\<rparr>
           (plotHeight pr) (legendWidth pr) (xlabelHeight pr))"

subsection \<open>scatCatViz\<close>

text \<open>
  What the call draws into the container.  A point mark is a symbol path with the symbol
  type of its shape, moved to the vertical position of its value and filled with the
  color of its color value; a band is the group of the marks of one Series, moved to the
  horizontal position of its index.  The tick marks d3 draws for the axes and the
  tooltip with its handlers are left out: the first come from d3 alone, and the second
  changes nothing of what is drawn.
\<close>

record 'c mark =
  m_symbol :: "string option"
  m_translate :: "rat \<times> jsnum"
  m_fill :: 'c
  m_datum :: point

record 'c band =
  b_translate :: "rat option \<times> rat"
  b_datum :: series
  b_points :: "'c mark list"

record line =
  ln_x1 :: rat
  ln_x2 :: rat
  ln_y1 :: jsnum
  ln_y2 :: jsnum

record 'c svg =
  svg_width :: rat
  svg_height :: rat
  g_translate :: "rat \<times> rat"
  x_axis_translate :: "rat \<times> rat"
  x_axis_tickValues :: "nat list option"
  y_label :: string
  x_label :: string
  bands :: "'c band list"
  lines :: "line list"
  legend :: "'c legend"

text \<open>
  The state a call works on: the heap with the dataset, and the content of the
  container of the slice (\<open>None\<close> when it is empty).
\<close>

record 'c state =
  heap :: heap
  container :: "'c svg option"

record slice =
  formData :: formData
  sl_width :: rat
  sl_height :: rat

text \<open>
  \<^verbatim>\<open>json.data\<close>: the address of the array \<^verbatim>\<open>data\<close>, and \<^verbatim>\<open>yLines\<close>, which may be missing.
  The argument \<^verbatim>\<open>json\<close> of \<^verbatim>\<open>scatCatViz\<close> is given by its \<^verbatim>\<open>data\<close> property, \<open>None\<close> for a
  response that has none.
\<close>

record json_data =
  j_data :: addr
  j_yLines :: "rat list option"

text \<open>
  The marks of a band: the band is new, so the join with \<^verbatim>\<open>d.values\<close> enters one
  \<^verbatim>\<open>path.point\<close> for each element.
\<close>

definition point_mark :: "'c env \<Rightarrow> formData \<Rightarrow> props \<Rightarrow> point \<Rightarrow> 'c mark" where
  "point_mark env fd pr d =
     \<lparr>m_symbol = fst (ordinal_call (shapeScale pr) (p_shape d)),
      m_translate = (0, linear_call (yScale pr) (p_y d)),
      m_fill = getColorFromScheme env (p_color d) (scheme fd),
      m_datum = d\<rparr>"

text \<open>
  The bands: the group \<^verbatim>\<open>g\<close> is new, so the join with \<^verbatim>\<open>sortedData\<close> enters one
  \<^verbatim>\<open>g.band\<close> for each Series, moved to \<^verbatim>\<open>xScale(i)\<close> for its index \<^verbatim>\<open>i\<close>.
\<close>

definition draw_bands :: "'c env \<Rightarrow> formData \<Rightarrow> props \<Rightarrow> series list \<Rightarrow> 'c band list" where
  "draw_bands env fd pr sortedArr =
     map (\<lambda>(i, d). \<lparr>b_translate = (fst (ordinal_call (xScale pr) i), 0),
                     b_datum = d,
                     b_points = map (point_mark env fd pr) (s_values d)\<rparr>)
         (enumerate 0 sortedArr)"

text \<open>
  \<^verbatim>\<open>if (yLines) { g.selectAll('.line').data(yLines).enter().append('line') ... }\<close>:
  a missing \<^verbatim>\<open>yLines\<close> is falsy, an array (the empty one too) is truthy.
\<close>

definition draw_lines :: "props \<Rightarrow> rat list option \<Rightarrow> line list" where
  "draw_lines pr yLines =
     (case yLines of
        None \<Rightarrow> []
      | Some ys \<Rightarrow>
          map (\<lambda>d. \<lparr>ln_x1 = 0, ln_x2 = plotWidth pr,
                     ln_y1 = linear_call (yScale pr) d,
                     ln_y2 = linear_call (yScale pr) d\<rparr>) ys)"

text \<open>
  The call clears the container first.  Reading \<^verbatim>\<open>json.data.data\<close> throws a TypeError
  when \<^verbatim>\<open>json.data\<close> is missing.  A TypeError from \<^verbatim>\<open>computedProps\<close> ends the call
  before the \<^verbatim>\<open>svg\<close> is appended, with the container empty and the dataset sorted.
\<close>

definition scatCatViz ::
  "'c env \<Rightarrow> slice \<Rightarrow> json_data option \<Rightarrow> 'c state \<Rightarrow> error option \<times> 'c state" where
  "scatCatViz env slice json st =
     (let st1 = st\<lparr>container := None\<rparr>;
          fd = formData slice;
          width = sl_width slice;
          height = sl_height slice
      in case json of
           None \<Rightarrow> (Some TypeError, st1)
         | Some json_data \<Rightarrow>
             (let data = j_data json_data;
                  yLines = j_yLines json_data;
                  (res, h') = computedProps (StringToNumber env) fd data width height (heap st1)
              in case res of
                   Inl e \<Rightarrow> (Some e, st1\<lparr>heap := h'\<rparr>)
                 | Inr pr \<Rightarrow>
                     (None,
                      st1\<lparr>heap := h',
                          container := Some
                            \<lparr>svg_width = width,
                             svg_height = height,
                             g_translate = (pad_left (padding pr), pad_top (padding pr)),
                             x_axis_translate = (0, plotHeight pr),
                             x_axis_tickValues =
                               (if displayXAxis pr then Some (xTicks pr) else None),
                             y_label = y_axis_label fd,
                             x_label = x_axis_label fd,
                             bands = draw_bands env fd pr (h' (sortedData pr)),
                             lines = draw_lines pr yLines,
                             legend = renderLegend env fd pr\<rparr>\<rparr>)))"

subsection \<open>Notions of the specification\<close>

text \<open>The Points of a dataset, Series by Series.\<close>

definition all_points :: "series list \<Rightarrow> point list" where
  "all_points ds = concat (map s_values ds)"

text \<open>The point marks in a container: the marks of all its bands; none when it is empty.\<close>

definition point_marks :: "'c svg option \<Rightarrow> 'c mark list" where
  "point_marks c = (case c of None \<Rightarrow> [] | Some s \<Rightarrow> concat (map b_points (bands s)))"

text \<open>The reference lines in a container.\<close>

definition reference_lines :: "'c svg option \<Rightarrow> line list" where
  "reference_lines c = (case c of None \<Rightarrow> [] | Some s \<Rightarrow> lines s)"

text \<open>The legend keys of a class in a container.\<close>

definition keys_of :: "key_class \<Rightarrow> 'c svg option \<Rightarrow> 'c legend_key list" where
  "keys_of cl c =
     (case c of None \<Rightarrow> []
      | Some s \<Rightarrow> filter (\<lambda>k. k_class k = cl) (legend_keys (legend s)))"

text \<open>
  The values of a list without repetition, in the order in which a scan sees them
  first.
\<close>

fun first_seen_from :: "'a list \<Rightarrow> 'a list \<Rightarrow> 'a list" where
  "first_seen_from seen [] = []"
| "first_seen_from seen (x # xs) =
     (if x \<in> set seen then first_seen_from seen xs else x # first_seen_from (x # seen) xs)"

definition first_seen :: "'a list \<Rightarrow> 'a list" where
  "first_seen xs = first_seen_from [] xs"








subsection \<open>Invariants\<close>



subsection \<open>Example inputs\<close>

text \<open>
  The dataset of the example of the specification,
  \<^verbatim>\<open>[{values:[{y:1,color:'a',shape:'x'}]}, {values:[{y:5,color:'b',shape:'y'}]}]\<close>, drawn
  at width 400 and height 300, and a dataset whose color values are numerals, with a
  Series that has no Point.
\<close>

definition example_data :: "series list" where
  "example_data =
     [\<lparr>s_key = ''first'',
       s_values = [\<lparr>p_y = 1, p_color = ''a'', p_shape = ''x'', p_entity = ''e1''\<rparr>]\<rparr>,
      \<lparr>s_key = ''second'',
       s_values = [\<lparr>p_y = 5, p_color = ''b'', p_shape = ''y'', p_entity = ''e2''\<rparr>]\<rparr>]"

definition numbered_data :: "series list" where
  "numbered_data =
     [\<lparr>s_key = ''two'',
       s_values = [\<lparr>p_y = 1, p_color = ''2'', p_shape = ''x'', p_entity = ''e1''\<rparr>,
                   \<lparr>p_y = 4, p_color = ''7'', p_shape = ''y'', p_entity = ''e2''\<rparr>]\<rparr>,
      \<lparr>s_key = ''one'',
       s_values = [\<lparr>p_y = 5, p_color = ''1'', p_shape = ''y'', p_entity = ''e3''\<rparr>]\<rparr>,
      \<lparr>s_key = ''none'', s_values = []\<rparr>]"

text \<open>A dataset of one Series whose Points have the colors 2 and 1, in this order.\<close>

definition swapped_data :: "series list" where
  "swapped_data =
     [\<lparr>s_key = ''only'',
       s_values = [\<lparr>p_y = 1, p_color = ''2'', p_shape = ''x'', p_entity = ''e1''\<rparr>,
                   \<lparr>p_y = 5, p_color = ''1'', p_shape = ''y'', p_entity = ''e2''\<rparr>]\<rparr>]"

definition example_slice :: slice where
  "example_slice =
     \<lparr>formData = \<lparr>scheme = ''bnbColors'', x_axis_label = ''category'',
                   y_axis_label = ''value'', y_axis_format = ''.3s''\<rparr>,
      sl_width = 400, sl_height = 300\<rparr>"


text \<open>
  An environment for the examples.  Its \<open>StringToNumber\<close> is right on the strings of the
  examples: the value of a string of decimal digits, and NaN for a string with another
  character.  The color of a value is written as the value itself, and a key is as wide
  as 30 and 8 for each character of its text.
\<close>

definition decimal_number :: "string \<Rightarrow> jsnum" where
  "decimal_number s =
     (case parse_digits 0 s of None \<Rightarrow> NaN | Some n \<Rightarrow> Fin (of_nat n))"

definition example_env :: "string env" where
  "example_env =
     \<lparr>StringToNumber = decimal_number,
      getColorFromScheme = (\<lambda>v s. v),
      getBBox_width = (\<lambda>k. 30 + 8 * of_nat (length (k_text k)))\<rparr>"

text \<open>A state whose heap holds the dataset \<open>ds\<close> at every address, with an empty container.\<close>

definition state_with :: "series list \<Rightarrow> string state" where
  "state_with ds = \<lparr>heap = (\<lambda>a. ds), container = None\<rparr>"


section \<open>Properties\<close>

subsection \<open>The tick interval\<close>

lemma tick_loop_eq: "i \<le> n - 1 \<Longrightarrow> tick_loop i n x = x * 10 ^ nat (n - 1 - i)"
proof (induction i n x rule: tick_loop.induct)
  case (1 i n x)
  show ?case
  proof (cases "i < n - 1")
    case True
    then have "nat (n - 1 - i) = Suc (nat (n - 1 - (i + 1)))" by simp
    with 1 True show ?thesis by (simp add: tick_loop.simps[of i])
  next
    case False
    with 1 show ?thesis by (simp add: tick_loop.simps[of i])
  qed
qed

lemma toString_bounds:
  "n < 10 ^ length (toString n) \<and>
   (10 \<le> n \<longrightarrow> 10 ^ (length (toString n) - 1) \<le> n) \<and>
   0 < length (toString n)"
proof (induction n rule: toString.induct)
  case (1 n)
  show ?case
  proof (cases "n < 10")
    case True
    then show ?thesis by (simp add: toString.simps[of n])
  next
    case False
    let ?m = "n div 10"
    let ?k = "length (toString ?m)"
    from False 1 have IH: "?m < 10 ^ ?k" "10 \<le> ?m \<longrightarrow> 10 ^ (?k - 1) \<le> ?m" "0 < ?k"
      by auto
    have len: "length (toString n) = Suc ?k" using False by (simp add: toString.simps[of n])
    have a: "n < 10 ^ Suc ?k" using IH(1) by (simp add: div_less_iff_less_mult)
    have b: "10 ^ ?k \<le> n"
    proof (cases "10 \<le> ?m")
      case True
      with IH(2) have "10 ^ (?k - 1) \<le> ?m" by simp
      then have "10 * 10 ^ (?k - 1) \<le> n" by (simp add: less_eq_div_iff_mult_less_eq)
      moreover have "10 * (10::nat) ^ (?k - 1) = 10 ^ ?k" using IH(3) by (cases ?k) auto
      ultimately show ?thesis by simp
    next
      case F: False
      then have "?k = 1" by (simp add: toString.simps[of ?m])
      then show ?thesis using False by simp
    qed
    show ?thesis using a b len by simp
  qed
qed

lemma d3_max_rest_fold: "d3_max_rest a (map Some xs) = fold max xs a"
  by (induction xs arbitrary: a) (auto simp: max_def)

lemma d3_max_rest_Max: "d3_max_rest a (map Some xs) = Max (set (a # xs))"
  by (simp only: d3_max_rest_fold Max.set_eq_fold)

lemma d3_max_Max: "xs \<noteq> [] \<Longrightarrow> d3_max (map Some xs) = Some (Max (set xs))"
  by (cases xs) (simp_all only: d3_max.simps list.map d3_max_rest_Max, simp)

lemma digits_unique:
  assumes "0 < d" "n < 10 ^ d" "d = 1 \<or> 10 ^ (d - 1) \<le> n"
  shows "length (toString n) = d"
proof -
  let ?L = "length (toString n)"
  from toString_bounds[of n]
  have L: "n < 10 ^ ?L" "10 \<le> n \<longrightarrow> 10 ^ (?L - 1) \<le> n" "0 < ?L" by auto
  have "\<not> ?L < d"
  proof
    assume lt: "?L < d"
    have "d \<noteq> 1" using L(3) lt by linarith
    with assms(3) have ge: "10 ^ (d - 1) \<le> n" by simp
    have "(10::nat) ^ ?L \<le> 10 ^ (d - 1)" using lt by (intro power_increasing) auto
    with L(1) have "n < 10 ^ (d - 1)" by (rule less_le_trans)
    with ge show False by simp
  qed
  moreover have "\<not> d < ?L"
  proof
    assume lt: "d < ?L"
    show False
    proof (cases "n < 10")
      case True
      then have "?L = 1" by (simp add: toString.simps[of n])
      with lt assms(1) show False by simp
    next
      case False
      with L(2) have ge: "10 ^ (?L - 1) \<le> n" by simp
      have "(10::nat) ^ d \<le> 10 ^ (?L - 1)" using lt by (intro power_increasing) auto
      with assms(2) have "n < 10 ^ (?L - 1)" by (rule less_le_trans)
      with ge show False by simp
    qed
  qed
  ultimately show ?thesis by simp
qed

lemma js_rem_divisible:
  assumes "0 < q"
  shows "js_not (js_rem (of_nat i) q) \<longleftrightarrow> (\<exists>k::nat. of_nat i = of_nat k * q)"
proof -
  have nn: "0 \<le> rat_of_nat i / q" using assms by simp
  have "js_not (js_rem (of_nat i) q) \<longleftrightarrow> rat_of_nat i = q * of_int \<lfloor>rat_of_nat i / q\<rfloor>"
    using assms nn by (simp add: js_rem_def)
  also have "\<dots> \<longleftrightarrow> (\<exists>k::nat. of_nat i = of_nat k * q)"
  proof
    assume h: "rat_of_nat i = q * of_int \<lfloor>rat_of_nat i / q\<rfloor>"
    have "0 \<le> \<lfloor>rat_of_nat i / q\<rfloor>" using nn by simp
    then obtain k :: nat where "\<lfloor>rat_of_nat i / q\<rfloor> = int k" using nonneg_int_cases by blast
    with h have "rat_of_nat i = of_nat k * q" by (simp add: mult.commute)
    then show "\<exists>k::nat. of_nat i = of_nat k * q" ..
  next
    assume "\<exists>k::nat. rat_of_nat i = of_nat k * q"
    then obtain k :: nat where k: "rat_of_nat i = of_nat k * q" ..
    then have "rat_of_nat i / q = of_nat k" using assms by simp
    then have "\<lfloor>rat_of_nat i / q\<rfloor> = int k" by simp
    with k show "rat_of_nat i = q * of_int \<lfloor>rat_of_nat i / q\<rfloor>" by (simp add: mult.commute)
  qed
  finally show ?thesis .
qed

text \<open>
  C3: for every non-empty list of indices (natural numbers), the tick interval is \<open>10\<^sup>d\<^sup>-\<^sup>1 / 2\<close>, where
  \<open>d\<close> is the number of decimal digits of the greatest index (the \<open>d > 0\<close> with
  \<open>max < 10\<^sup>d\<close> and, unless \<open>d = 1\<close>, \<open>10\<^sup>d\<^sup>-\<^sup>1 \<le> max\<close>), and the ticks kept are exactly the
  indices that are a whole multiple of the interval.  When the greatest index has one
  digit the interval is \<open>1 / 2\<close> and every index is kept.
\<close>

theorem tick_interval_and_ticks:
  assumes "data \<noteq> []" and "0 < d" and "Max (set data) < 10 ^ d"
    and "d = 1 \<or> 10 ^ (d - 1) \<le> Max (set data)"
  shows "computeTickInterval data = Inr (10 ^ (d - 1) / 2) \<and>
         tick_filter (10 ^ (d - 1) / 2) data =
           filter (\<lambda>i. \<exists>k::nat. of_nat i = of_nat k * (10 ^ (d - 1) / 2 :: rat)) data \<and>
         (if d = 1 then tick_filter (10 ^ (d - 1) / 2) data = data else True)"
proof -
  have len: "length (toString (Max (set data))) = d"
    using assms(2-4) by (rule digits_unique)
  have "d - 1 = nat (int d - 1)" by simp
  have loop: "tick_loop 0 (int d) 1 = 10 ^ (d - 1)"
    using assms(2) tick_loop_eq[of 0 "int d" 1] by (simp add: nat_diff_distrib')
  have 1: "computeTickInterval data = Inr (10 ^ (d - 1) / 2)"
    using assms(1) by (simp add: computeTickInterval_def d3_max_Max len loop)
  have pos: "(0::rat) < 10 ^ (d - 1) / 2" by simp
  have 2: "tick_filter (10 ^ (d - 1) / 2) data =
           filter (\<lambda>i. \<exists>k::nat. of_nat i = of_nat k * (10 ^ (d - 1) / 2 :: rat)) data"
    unfolding tick_filter_def using js_rem_divisible[OF pos] by simp
  have 3: "tick_filter (10 ^ (d - 1) / 2) data = data" if "d = 1"
  proof -
    have "\<exists>k::nat. rat_of_nat i = of_nat k * (10 ^ (d - 1) / 2)" for i
      using that by (intro exI[of _ "2 * i"]) simp
    then show ?thesis unfolding 2 by simp
  qed
  show ?thesis using 1 2 3 by simp
qed

theorem tick_interval_and_ticks_witness:
  "[0, 1, 2, 3, 4, 5, 6, 7, 8, 9, 10, 11] \<noteq> ([] :: nat list) \<and>
   computeTickInterval [0, 1, 2, 3, 4, 5, 6, 7, 8, 9, 10, 11] = Inr 5 \<and>
   tick_filter 5 [0, 1, 2, 3, 4, 5, 6, 7, 8, 9, 10, 11] = [0, 5, 10]"
proof -
  let ?data = "[0, 1, 2, 3, 4, 5, 6, 7, 8, 9, 10, 11] :: nat list"
  have h: "?data \<noteq> []" "0 < (2::nat)" "Max (set ?data) < 10 ^ 2"
    "(2::nat) = 1 \<or> 10 ^ (2 - 1) \<le> Max (set ?data)"
    by simp_all
  have "computeTickInterval ?data = Inr (10 ^ (2 - 1) / 2)"
    using tick_interval_and_ticks [OF h] by (rule conjunct1)
  moreover have "tick_filter 5 ?data = [0, 5, 10]"
    by code_simp
  ultimately show ?thesis by simp
qed


subsection \<open>Sorting, the computed properties and the drawing\<close>

lemma mset_sort_insert: "mset (sort_insert cmp x ys) = add_mset x (mset ys)"
  by (induction ys) simp_all

lemma mset_array_sort: "mset (array_sort cmp xs) = mset xs"
  by (induction xs) (simp_all add: mset_sort_insert)

lemma length_array_sort: "length (array_sort cmp xs) = length xs"
  using mset_array_sort[of cmp xs] by (metis size_mset)

lemma array_sort_Nil_iff: "array_sort cmp xs = [] \<longleftrightarrow> xs = []"
  using length_array_sort[of cmp xs] by (metis length_0_conv)

lemma domain_push_distinct:
  "distinct (dm @ xs) \<Longrightarrow> domain_push dm xs = dm @ xs"
  by (induction xs arbitrary: dm) auto

lemma domain_push_range: "domain_push [] (d3_range n) = d3_range n"
  using domain_push_distinct[of "[]" "d3_range n"] by (simp add: d3_range_def)

lemma d3_max_None_iff: "d3_max (map Some xs) = None \<longleftrightarrow> xs = []"
  by (cases xs) simp_all

lemma computeTickInterval_Nil: "computeTickInterval [] = Inl TypeError"
  by (simp add: computeTickInterval_def)

lemma computeTickInterval_Inr:
  "xs \<noteq> [] \<Longrightarrow> \<exists>interval. computeTickInterval xs = Inr interval"
proof -
  assume "xs \<noteq> []"
  then obtain m where "d3_max (map Some xs) = Some m"
    by (cases "d3_max (map Some xs)") (simp_all add: d3_max_None_iff)
  then have "computeTickInterval xs = Inr (tick_loop 0 (int (length (toString m))) 1 / 2)"
    by (simp add: computeTickInterval_def Let_def)
  then show ?thesis ..
qed

lemma o_domain_rangePoints: "o_domain (rangePoints dm x) = dm"
  by (simp add: rangePoints_def Let_def)

lemma snd_computedProps:
  "snd (computedProps strnum fd data width height h) =
     h(data := array_sort (comparator strnum color) (h data))"
  by (simp add: computedProps_def sortData_def Let_def split: sum.split)

lemma computedProps_empty:
  assumes "h data = []"
  shows "fst (computedProps strnum fd data width height h) = Inl TypeError"
  using assms
  by (simp add: computedProps_def sortData_def Let_def domain_push_range
      o_domain_rangePoints d3_range_def computeTickInterval_Nil)

lemma computedProps_nonempty:
  fixes strnum :: "string \<Rightarrow> jsnum" and h :: heap and data :: addr
  assumes "h data \<noteq> []"
  defines "sortedArr \<equiv> array_sort (comparator strnum color) (h data)"
  shows "\<exists>pr. fst (computedProps strnum fd data width height h) = Inr pr \<and>
     sortedData pr = data \<and>
     padding pr = \<lparr>pad_top = 20, pad_left = 60, pad_right = 20, pad_bottom = 60\<rparr> \<and>
     plotWidth pr = width - 80 \<and>
     legendWidth pr = width - 80 \<and>
     xlabelHeight pr = height * (3 / 100) \<and>
     plotHeight pr = height - (80 + height * (7 / 100) + height * (3 / 100)) \<and>
     yScale pr =
       \<lparr>l_domain =
          (d3_min (map (\<lambda>d. d3_min (map (\<lambda>v. Some (p_y v)) (s_values d))) sortedArr),
           d3_max (map (\<lambda>d. d3_max (map (\<lambda>v. Some (p_y v)) (s_values d))) sortedArr)),
        l_range = (height - (80 + height * (7 / 100) + height * (3 / 100)), 0)\<rparr> \<and>
     xScale pr = rangePoints (d3_range (length (h data))) (0, width - 80) \<and>
     colorValues pr = set_values (d3_set (concat (map (\<lambda>d. map p_color (s_values d)) sortedArr))) \<and>
     shapeValues pr = set_values (d3_set (concat (map (\<lambda>d. map p_shape (s_values d)) sortedArr))) \<and>
     shapeScale pr = ordinal_range (domain_push [] (shapeValues pr)) symbolTypes \<and>
     displayXAxis pr"
proof -
  have ne: "d3_range (length (h data)) \<noteq> []" using assms(1) by (simp add: d3_range_def)
  from computeTickInterval_Inr[OF ne] obtain interval where
    i: "computeTickInterval (d3_range (length (h data))) = Inr interval" ..
  show ?thesis
    unfolding sortedArr_def
    by (simp add: computedProps_def sortData_def Let_def domain_push_range
      o_domain_rangePoints length_array_sort i)
qed


lemma scatCatViz_alt:
  "scatCatViz env slice (Some json) st =
     (case fst (computedProps (StringToNumber env) (formData slice) (j_data json)
                  (sl_width slice) (sl_height slice) (heap st)) of
        Inl e \<Rightarrow>
          (Some e,
           st\<lparr>container := None,
               heap := snd (computedProps (StringToNumber env) (formData slice) (j_data json)
                  (sl_width slice) (sl_height slice) (heap st))\<rparr>)
      | Inr pr \<Rightarrow>
          (None,
           st\<lparr>container := Some
                 \<lparr>svg_width = sl_width slice,
                  svg_height = sl_height slice,
                  g_translate = (pad_left (padding pr), pad_top (padding pr)),
                  x_axis_translate = (0, plotHeight pr),
                  x_axis_tickValues = (if displayXAxis pr then Some (xTicks pr) else None),
                  y_label = y_axis_label (formData slice),
                  x_label = x_axis_label (formData slice),
                  bands = draw_bands env (formData slice) pr
                     (snd (computedProps (StringToNumber env) (formData slice) (j_data json)
                        (sl_width slice) (sl_height slice) (heap st)) (sortedData pr)),
                  lines = draw_lines pr (j_yLines json),
                  legend = renderLegend env (formData slice) pr\<rparr>,
               heap := snd (computedProps (StringToNumber env) (formData slice) (j_data json)
                  (sl_width slice) (sl_height slice) (heap st))\<rparr>))"
  by (simp add: scatCatViz_def Let_def split_beta split: sum.split)

lemma heap_scatCatViz:
  "heap (snd (scatCatViz env slice (Some json) st)) =
     (heap st)(j_data json :=
        array_sort (comparator (StringToNumber env) color) (heap st (j_data json)))"
  by (simp add: scatCatViz_alt snd_computedProps split: sum.split)

lemma scatCatViz_empty:
  assumes "heap st (j_data json) = []"
  shows "fst (scatCatViz env slice (Some json) st) = Some TypeError \<and>
         container (snd (scatCatViz env slice (Some json) st)) = None"
  using computedProps_empty[where h = "heap st" and data = "j_data json", OF assms]
  by (simp add: scatCatViz_alt)

lemma scatCatViz_nonempty:
  assumes "heap st (j_data json) \<noteq> []"
  shows "\<exists>pr. fst (computedProps (StringToNumber env) (formData slice) (j_data json)
                  (sl_width slice) (sl_height slice) (heap st)) = Inr pr \<and>
          fst (scatCatViz env slice (Some json) st) = None \<and>
          (\<exists>s. container (snd (scatCatViz env slice (Some json) st)) = Some s \<and>
            bands s = draw_bands env (formData slice) pr
               (array_sort (comparator (StringToNumber env) color) (heap st (j_data json))) \<and>
            lines s = draw_lines pr (j_yLines json) \<and>
            legend s = renderLegend env (formData slice) pr \<and>
            x_axis_tickValues s = Some (xTicks pr))"
proof -
  from computedProps_nonempty[where h = "heap st" and data = "j_data json", OF assms]
  obtain pr where
    pr: "fst (computedProps (StringToNumber env) (formData slice) (j_data json)
                  (sl_width slice) (sl_height slice) (heap st)) = Inr pr"
    "sortedData pr = j_data json" "displayXAxis pr" by blast
  show ?thesis
    by (rule exI[of _ pr]) (simp add: pr scatCatViz_alt snd_computedProps)
qed

lemma map_enumerate_snd:
  assumes "\<And>i d. g (F i d) = f d"
  shows "map g (map (\<lambda>(i, d). F i d) (enumerate n xs)) = map f xs"
  by (induction xs arbitrary: n) (simp_all add: assms)

lemma b_points_draw_bands:
  "map b_points (draw_bands env fd pr xs) =
     map (\<lambda>d. map (point_mark env fd pr) (s_values d)) xs"
  unfolding draw_bands_def by (rule map_enumerate_snd) simp

lemma b_datum_draw_bands: "map b_datum (draw_bands env fd pr xs) = xs"
  unfolding draw_bands_def by (rule trans[OF map_enumerate_snd[where f = "\<lambda>d. d"]]) simp_all

lemma length_concat_marks:
  "length (concat (map b_points (draw_bands env fd pr xs))) =
     sum_list (map (\<lambda>s. length (s_values s)) xs)"
  by (simp add: b_points_draw_bands length_concat comp_def)

lemma sum_list_array_sort:
  "sum_list (map f (array_sort cmp xs)) = sum_list (map (f :: 'a \<Rightarrow> nat) xs)"
proof -
  have "sum_list (map f (array_sort cmp xs)) = sum_mset (image_mset f (mset (array_sort cmp xs)))"
    by (metis mset_map sum_mset_sum_list)
  also have "\<dots> = sum_mset (image_mset f (mset xs))" by (simp add: mset_array_sort)
  also have "\<dots> = sum_list (map f xs)" by (metis mset_map sum_mset_sum_list)
  finally show ?thesis .
qed


lemma d3_min_rest_fold: "d3_min_rest a (map Some xs) = fold min xs a"
  by (induction xs arbitrary: a) (auto simp: min_def)

lemma d3_min_Some_list:
  "d3_min (map Some xs) = (if xs = [] then None else Some (Min (set xs)))"
  by (cases xs) (simp_all only: d3_min.simps list.map d3_min_rest_fold Min.set_eq_fold, simp_all)

lemma d3_max_Some_list:
  "d3_max (map Some xs) = (if xs = [] then None else Some (Max (set xs)))"
  by (cases xs) (simp_all only: d3_max.simps list.map d3_max_rest_fold Max.set_eq_fold, simp_all)

lemma Min_insert_Min:
  assumes "finite F" "F \<noteq> {}" "finite S"
  shows "Min (insert (Min F) S) = Min (F \<union> S)"
  by (metis Min.union Min_insert Min_singleton assms(1,2,3) sup_bot.right_neutral)

lemma Max_insert_Max:
  assumes "finite F" "F \<noteq> {}" "finite S"
  shows "Max (insert (Max F) S) = Max (F \<union> S)"
  by (metis Max.union Max_insert Max_singleton assms(1,2,3) sup_bot.right_neutral)


lemma if_min: "(if a > m then m else a) = min a (m :: 'a :: linorder)"
  by (auto simp: min_def)

lemma if_max: "(if m > a then m else a) = max a (m :: 'a :: linorder)"
  by (auto simp: max_def)

lemma d3_min_rest_nested:
  "d3_min_rest a (map (\<lambda>d. d3_min (map Some (f d))) ds) =
     Min (insert a (set (concat (map f ds))))"
proof (induction ds arbitrary: a)
  case Nil
  show ?case by simp
next
  case (Cons d ds)
  show ?case
  proof (cases "f d = []")
    case True
    then show ?thesis using Cons by (simp add: d3_min_Some_list)
  next
    case False
    let ?F = "set (f d)" and ?S = "set (concat (map f ds))"
    have g: "d3_min (map Some (f d)) = Some (Min ?F)"
      using False by (simp add: d3_min_Some_list)
    have "d3_min_rest a (map (\<lambda>d. d3_min (map Some (f d))) (d # ds)) =
          d3_min_rest (min a (Min ?F)) (map (\<lambda>d. d3_min (map Some (f d))) ds)"
      by (simp only: list.map g d3_min_rest.simps if_min)
    also have "\<dots> = Min (insert (min a (Min ?F)) ?S)"
      by (rule Cons.IH)
    also have "min a (Min ?F) = Min (insert a ?F)" using False by simp
    also have "Min (insert (Min (insert a ?F)) ?S) = Min (insert a ?F \<union> ?S)"
      by (rule Min_insert_Min) simp_all
    finally show ?thesis by simp
  qed
qed

lemma d3_min_nested:
  "d3_min (map (\<lambda>d. d3_min (map Some (f d))) ds) =
     (if concat (map f ds) = [] then None else Some (Min (set (concat (map f ds)))))"
proof (induction ds)
  case Nil
  show ?case by simp
next
  case (Cons d ds)
  show ?case
  proof (cases "f d = []")
    case True
    then show ?thesis using Cons by (simp add: d3_min_Some_list)
  next
    case False
    have g: "d3_min (map Some (f d)) = Some (Min (set (f d)))"
      using False by (simp add: d3_min_Some_list)
    have "d3_min (map (\<lambda>d. d3_min (map Some (f d))) (d # ds)) =
          Some (Min (insert (Min (set (f d))) (set (concat (map f ds)))))"
      by (simp only: list.map g d3_min.simps d3_min_rest_nested)
    also have "Min (insert (Min (set (f d))) (set (concat (map f ds)))) =
          Min (set (f d) \<union> set (concat (map f ds)))"
      using False by (intro Min_insert_Min) simp_all
    finally show ?thesis using False by simp
  qed
qed

lemma d3_max_rest_nested:
  "d3_max_rest a (map (\<lambda>d. d3_max (map Some (f d))) ds) =
     Max (insert a (set (concat (map f ds))))"
proof (induction ds arbitrary: a)
  case Nil
  show ?case by simp
next
  case (Cons d ds)
  show ?case
  proof (cases "f d = []")
    case True
    then show ?thesis using Cons by (simp add: d3_max_Some_list)
  next
    case False
    let ?F = "set (f d)" and ?S = "set (concat (map f ds))"
    have g: "d3_max (map Some (f d)) = Some (Max ?F)"
      using False by (simp add: d3_max_Some_list)
    have "d3_max_rest a (map (\<lambda>d. d3_max (map Some (f d))) (d # ds)) =
          d3_max_rest (max a (Max ?F)) (map (\<lambda>d. d3_max (map Some (f d))) ds)"
      by (simp only: list.map g d3_max_rest.simps if_max)
    also have "\<dots> = Max (insert (max a (Max ?F)) ?S)"
      by (rule Cons.IH)
    also have "max a (Max ?F) = Max (insert a ?F)" using False by simp
    also have "Max (insert (Max (insert a ?F)) ?S) = Max (insert a ?F \<union> ?S)"
      by (rule Max_insert_Max) simp_all
    finally show ?thesis by simp
  qed
qed

lemma d3_max_nested:
  "d3_max (map (\<lambda>d. d3_max (map Some (f d))) ds) =
     (if concat (map f ds) = [] then None else Some (Max (set (concat (map f ds)))))"
proof (induction ds)
  case Nil
  show ?case by simp
next
  case (Cons d ds)
  show ?case
  proof (cases "f d = []")
    case True
    then show ?thesis using Cons by (simp add: d3_max_Some_list)
  next
    case False
    have g: "d3_max (map Some (f d)) = Some (Max (set (f d)))"
      using False by (simp add: d3_max_Some_list)
    have "d3_max (map (\<lambda>d. d3_max (map Some (f d))) (d # ds)) =
          Some (Max (insert (Max (set (f d))) (set (concat (map f ds)))))"
      by (simp only: list.map g d3_max.simps d3_max_rest_nested)
    also have "Max (insert (Max (set (f d))) (set (concat (map f ds)))) =
          Max (set (f d) \<union> set (concat (map f ds)))"
      using False by (intro Max_insert_Max) simp_all
    finally show ?thesis using False by simp
  qed
qed

lemma set_array_sort: "set (array_sort cmp xs) = set xs"
  using mset_array_sort[of cmp xs] by (metis set_mset_mset)

lemma y_values_sorted:
  "set (concat (map (\<lambda>d. map p_y (s_values d)) (array_sort cmp ds))) =
   set (map p_y (all_points ds))"
  by (auto simp: all_points_def set_array_sort)


subsection \<open>The legend rows\<close>











subsection \<open>The point marks\<close>

text \<open>
  C1: after a call of \<^verbatim>\<open>scatCatViz\<close> the number of point marks in the container is the
  number of Points of the dataset, summed over its Series.  The container is empty only
  for a dataset with no Series; otherwise it has one band for each Series of the sorted
  dataset, in order, and the marks of a band are one for each element of the \<^verbatim>\<open>values\<close> of
  its Series, in order.
\<close>

theorem point_marks_count:
  "length (point_marks (container (snd (scatCatViz env slice (Some json) st)))) =
     sum_list (map (\<lambda>s. length (s_values s)) (heap st (j_data json))) \<and>
   (case container (snd (scatCatViz env slice (Some json) st)) of
      None \<Rightarrow> heap st (j_data json) = []
    | Some s \<Rightarrow>
        map b_datum (bands s) = heap (snd (scatCatViz env slice (Some json) st)) (j_data json) \<and>
        map (\<lambda>b. map m_datum (b_points b)) (bands s) = map s_values (map b_datum (bands s)))"
proof (cases "heap st (j_data json) = []")
  case True
  with scatCatViz_empty[OF True, of env slice] show ?thesis
    by (simp add: point_marks_def)
next
  case False
  from scatCatViz_nonempty[OF False, of env slice] obtain pr s where
    s: "container (snd (scatCatViz env slice (Some json) st)) = Some s"
       "bands s = draw_bands env (formData slice) pr
               (array_sort (comparator (StringToNumber env) color) (heap st (j_data json)))"
    by blast
  have "map (\<lambda>b. map m_datum (b_points b)) (bands s) = map s_values (map b_datum (bands s))"
    unfolding s(2) b_datum_draw_bands
    using b_points_draw_bands[of env "formData slice" pr]
    by (simp add: point_mark_def comp_def flip: map_map[of "map m_datum" b_points, unfolded comp_def])
  then show ?thesis
    using s by (simp add: point_marks_def length_concat_marks sum_list_array_sort
        b_datum_draw_bands heap_scatCatViz)
qed

theorem point_marks_count_witness:
  "length (point_marks (container (snd (scatCatViz example_env example_slice
     (Some \<lparr>j_data = 0, j_yLines = None\<rparr>) (state_with numbered_data))))) = 3 \<and>
   sum_list (map (\<lambda>s. length (s_values s)) numbered_data) = 3"
proof -
  have "sum_list (map (\<lambda>s. length (s_values s))
          (heap (state_with numbered_data) (j_data \<lparr>j_data = 0, j_yLines = None\<rparr>))) = 3"
    by (simp add: state_with_def numbered_data_def)
  then show ?thesis
    using point_marks_count [of example_env example_slice "\<lparr>j_data = 0, j_yLines = None\<rparr>"
        "state_with numbered_data"]
    by (simp add: state_with_def)
qed

subsection \<open>Completion of a render\<close>





subsection \<open>The vertical scale\<close>

text \<open>
  C6: for every dataset whose Points do not all have the same \<open>y\<close>, the vertical scale
  has the domain from the least to the greatest \<open>y\<close> of all Points and the range from
  \<^verbatim>\<open>plotHeight\<close> to 0: it maps the least value to \<^verbatim>\<open>plotHeight\<close> and the greatest to 0.
\<close>

theorem vertical_scale_extremes:
  fixes h :: heap and data :: addr
  defines "ys \<equiv> map p_y (all_points (h data))"
  assumes nd: "\<exists>a \<in> set ys. \<exists>b \<in> set ys. a \<noteq> b"
  shows "\<exists>pr. fst (computedProps strnum fd data width height h) = Inr pr \<and>
           plotHeight pr = height - (80 + height * (7 / 100) + height * (3 / 100)) \<and>
           l_domain (yScale pr) = (Some (Min (set ys)), Some (Max (set ys))) \<and>
           l_range (yScale pr) = (plotHeight pr, 0) \<and>
           linear_call (yScale pr) (Min (set ys)) = Fin (plotHeight pr) \<and>
           linear_call (yScale pr) (Max (set ys)) = Fin 0"
proof -
  from nd obtain a b where ab: "a \<in> set ys" "b \<in> set ys" "a \<noteq> b" by blast
  have ne: "h data \<noteq> []" using ab(1) by (auto simp: ys_def all_points_def)
  let ?sorted = "array_sort (comparator strnum color) (h data)"
  let ?f = "\<lambda>d. map p_y (s_values d)"
  have set_eq: "set (concat (map ?f ?sorted)) = set ys"
    unfolding ys_def by (rule y_values_sorted)
  have ne2: "concat (map ?f ?sorted) \<noteq> []"
    using set_eq ab(1) by (metis empty_iff set_empty)
  have map_Some: "map (\<lambda>v. Some (p_y v)) (s_values d) = map Some (?f d)" for d
    by simp
  have dmin: "d3_min (map (\<lambda>d. d3_min (map (\<lambda>v. Some (p_y v)) (s_values d))) ?sorted) =
      Some (Min (set ys))"
    unfolding map_Some using d3_min_nested[of ?f ?sorted] ne2 set_eq by simp
  have dmax: "d3_max (map (\<lambda>d. d3_max (map (\<lambda>v. Some (p_y v)) (s_values d))) ?sorted) =
      Some (Max (set ys))"
    unfolding map_Some using d3_max_nested[of ?f ?sorted] ne2 set_eq by simp
  have "Min (set ys) \<le> a" "a \<le> Max (set ys)" "Min (set ys) \<le> b" "b \<le> Max (set ys)"
    using ab by simp_all
  with ab(3) have lt: "Min (set ys) < Max (set ys)" by linarith
  from computedProps_nonempty[where h = h and data = data, OF ne,
      of strnum fd width height]
  obtain pr where pr: "fst (computedProps strnum fd data width height h) = Inr pr"
    "plotHeight pr = height - (80 + height * (7 / 100) + height * (3 / 100))"
    "yScale pr =
       \<lparr>l_domain =
          (d3_min (map (\<lambda>d. d3_min (map (\<lambda>v. Some (p_y v)) (s_values d))) ?sorted),
           d3_max (map (\<lambda>d. d3_max (map (\<lambda>v. Some (p_y v)) (s_values d))) ?sorted)),
        l_range = (height - (80 + height * (7 / 100) + height * (3 / 100)), 0)\<rparr>"
    by blast
  have sc: "yScale pr = \<lparr>l_domain = (Some (Min (set ys)), Some (Max (set ys))),
        l_range = (plotHeight pr, 0)\<rparr>"
    using pr(2,3) dmin dmax by simp
  show ?thesis
    using lt by (intro exI[of _ pr]) (simp add: pr(1,2) sc linear_call_def)
qed

theorem vertical_scale_extremes_witness:
  "(1::rat) \<noteq> 5 \<and>
   (\<exists>pr. fst (computedProps decimal_number (formData example_slice) 0 400 300
              (heap (state_with example_data))) = Inr pr \<and>
         plotHeight pr = 190 \<and>
         l_domain (yScale pr) = (Some 1, Some 5) \<and>
         l_range (yScale pr) = (190, 0) \<and>
         linear_call (yScale pr) 1 = Fin 190 \<and>
         linear_call (yScale pr) 5 = Fin 0)"
proof -
  let ?h = "heap (state_with example_data)"
  have ys: "map p_y (all_points (?h 0)) = [1, 5]"
    by (simp add: state_with_def example_data_def all_points_def)
  have nd: "\<exists>a \<in> set (map p_y (all_points (?h 0))). \<exists>b \<in> set (map p_y (all_points (?h 0))). a \<noteq> b"
    unfolding ys by (rule bexI[of _ 1], rule bexI[of _ 5]) simp_all
  from vertical_scale_extremes [where h = ?h and data = 0 and strnum = decimal_number
      and fd = "formData example_slice" and width = 400 and height = 300, OF nd]
  show ?thesis unfolding ys by auto
qed

subsection \<open>The reference lines\<close>

text \<open>
  In a render of a dataset with at least one Series, \<^verbatim>\<open>yLines\<close> draws one line for each
  of its values, from \<open>x = 0\<close> to \<open>x = plotWidth\<close> at the vertical scale position of the
  value; so \<^verbatim>\<open>yLines=[3]\<close> draws exactly one full-width line at \<^verbatim>\<open>yScale(3)\<close>.  With
  \<^verbatim>\<open>yLines=[]\<close> or without \<^verbatim>\<open>yLines\<close> no line is drawn, for any dataset.
\<close>

lemma reference_lines_drawn:
  "(heap st (j_data json) \<noteq> [] \<and> j_yLines json = Some ys \<longrightarrow>
      (\<exists>pr. fst (computedProps (StringToNumber env) (formData slice) (j_data json)
                 (sl_width slice) (sl_height slice) (heap st)) = Inr pr \<and>
            plotWidth pr = sl_width slice - 80 \<and>
            reference_lines (container (snd (scatCatViz env slice (Some json) st))) =
              map (\<lambda>d. \<lparr>ln_x1 = 0, ln_x2 = plotWidth pr,
                         ln_y1 = linear_call (yScale pr) d,
                         ln_y2 = linear_call (yScale pr) d\<rparr>) ys)) \<and>
   (j_yLines json = Some [] \<or> j_yLines json = None \<longrightarrow>
      reference_lines (container (snd (scatCatViz env slice (Some json) st))) = [])"
proof (intro conjI impI)
  assume a: "heap st (j_data json) \<noteq> [] \<and> j_yLines json = Some ys"
  then have ne: "heap st (j_data json) \<noteq> []" and ys: "j_yLines json = Some ys" by simp_all
  from computedProps_nonempty[where h = "heap st" and data = "j_data json", OF ne,
      of "StringToNumber env" "formData slice" "sl_width slice" "sl_height slice"]
  obtain pr0 where pr0: "fst (computedProps (StringToNumber env) (formData slice) (j_data json)
                 (sl_width slice) (sl_height slice) (heap st)) = Inr pr0"
     "plotWidth pr0 = sl_width slice - 80" by blast
  from scatCatViz_nonempty[OF ne, of env slice] obtain pr s where
    s: "fst (computedProps (StringToNumber env) (formData slice) (j_data json)
                 (sl_width slice) (sl_height slice) (heap st)) = Inr pr"
       "container (snd (scatCatViz env slice (Some json) st)) = Some s"
       "lines s = draw_lines pr (j_yLines json)"
    by blast
  from pr0(1) s(1) have "pr = pr0" by simp
  with pr0 s ys show "\<exists>pr. fst (computedProps (StringToNumber env) (formData slice) (j_data json)
                 (sl_width slice) (sl_height slice) (heap st)) = Inr pr \<and>
            plotWidth pr = sl_width slice - 80 \<and>
            reference_lines (container (snd (scatCatViz env slice (Some json) st))) =
              map (\<lambda>d. \<lparr>ln_x1 = 0, ln_x2 = plotWidth pr,
                         ln_y1 = linear_call (yScale pr) d,
                         ln_y2 = linear_call (yScale pr) d\<rparr>) ys"
    by (intro exI[of _ pr0]) (simp add: reference_lines_def draw_lines_def)
next
  assume a: "j_yLines json = Some [] \<or> j_yLines json = None"
  show "reference_lines (container (snd (scatCatViz env slice (Some json) st))) = []"
  proof (cases "heap st (j_data json) = []")
    case True
    with scatCatViz_empty[OF True, of env slice] show ?thesis
      by (simp add: reference_lines_def)
  next
    case False
    from scatCatViz_nonempty[OF False, of env slice] obtain pr s where
       "container (snd (scatCatViz env slice (Some json) st)) = Some s"
       "lines s = draw_lines pr (j_yLines json)"
      by blast
    with a show ?thesis by (auto simp: reference_lines_def draw_lines_def)
  qed
qed

lemma reference_lines_drawn_example:
  "heap (state_with example_data) (j_data \<lparr>j_data = 0, j_yLines = Some [3]\<rparr>) \<noteq> [] \<and>
   reference_lines (container (snd (scatCatViz example_env example_slice
      (Some \<lparr>j_data = 0, j_yLines = Some [3]\<rparr>) (state_with example_data)))) =
     [\<lparr>ln_x1 = 0, ln_x2 = 320, ln_y1 = Fin 95, ln_y2 = Fin 95\<rparr>] \<and>
   reference_lines (container (snd (scatCatViz example_env example_slice
      (Some \<lparr>j_data = 0, j_yLines = Some []\<rparr>) (state_with example_data)))) = [] \<and>
   reference_lines (container (snd (scatCatViz example_env example_slice
      (Some \<lparr>j_data = 0, j_yLines = None\<rparr>) (state_with example_data)))) = []"
proof -
  let ?st = "state_with example_data"
  have ne: "heap ?st (j_data \<lparr>j_data = 0, j_yLines = Some [3]\<rparr>) \<noteq> []"
    by (simp add: state_with_def example_data_def)
  have pr: "fst (computedProps (StringToNumber example_env) (formData example_slice)
              (j_data \<lparr>j_data = 0, j_yLines = Some [3]\<rparr>)
              (sl_width example_slice) (sl_height example_slice) (heap ?st)) =
            Inr \<lparr>padding = \<lparr>pad_top = 20, pad_left = 60, pad_right = 20, pad_bottom = 60\<rparr>,
                 sortedData = 0, plotWidth = 320, plotHeight = 190,
                 yScale = \<lparr>l_domain = (Some 1, Some 5), l_range = (190, 0)\<rparr>,
                 xScale = \<lparr>o_domain = [0, 1], o_range = [0, 320], o_ranger = RangePoints\<rparr>,
                 xTicks = [0, 1],
                 shapeScale = \<lparr>o_domain = [''x'', ''y''], o_range = symbolTypes,
                                o_ranger = Range\<rparr>,
                 shapeValues = [''x'', ''y''], colorValues = [''a'', ''b''],
                 displayXAxis = True, xlabelHeight = 9, legendWidth = 320\<rparr>"
    by code_simp
  have three: "linear_call \<lparr>l_domain = (Some 1, Some 5), l_range = (190, 0)\<rparr> 3 = Fin 95"
    by (simp add: linear_call_def)
  have hyp: "heap ?st (j_data \<lparr>j_data = 0, j_yLines = Some [3]\<rparr>) \<noteq> [] \<and>
      j_yLines \<lparr>j_data = 0, j_yLines = Some [3]\<rparr> = Some [3]"
    using ne by simp
  from reference_lines_drawn [THEN conjunct1, rule_format, OF hyp, of example_env example_slice]
  obtain pr' where
    a: "fst (computedProps (StringToNumber example_env) (formData example_slice)
              (j_data \<lparr>j_data = 0, j_yLines = Some [3]\<rparr>)
              (sl_width example_slice) (sl_height example_slice) (heap ?st)) = Inr pr'" and
    b: "reference_lines (container (snd (scatCatViz example_env example_slice
          (Some \<lparr>j_data = 0, j_yLines = Some [3]\<rparr>) ?st))) =
        map (\<lambda>d. \<lparr>ln_x1 = 0, ln_x2 = plotWidth pr',
                   ln_y1 = linear_call (yScale pr') d,
                   ln_y2 = linear_call (yScale pr') d\<rparr>) [3]"
    by blast
  from a pr have pr': "plotWidth pr' = 320"
    "yScale pr' = \<lparr>l_domain = (Some 1, Some 5), l_range = (190, 0)\<rparr>"
    by simp_all
  have 1: "reference_lines (container (snd (scatCatViz example_env example_slice
      (Some \<lparr>j_data = 0, j_yLines = Some [3]\<rparr>) ?st))) =
     [\<lparr>ln_x1 = 0, ln_x2 = 320, ln_y1 = Fin 95, ln_y2 = Fin 95\<rparr>]"
    unfolding b by (simp add: pr' three)
  have 2: "reference_lines (container (snd (scatCatViz example_env example_slice
      (Some \<lparr>j_data = 0, j_yLines = Some []\<rparr>) ?st))) = []"
    using reference_lines_drawn [of ?st "\<lparr>j_data = 0, j_yLines = Some []\<rparr>" "[]"
        example_env example_slice]
    by simp
  have 3: "reference_lines (container (snd (scatCatViz example_env example_slice
      (Some \<lparr>j_data = 0, j_yLines = None\<rparr>) ?st))) = []"
    using reference_lines_drawn [of ?st "\<lparr>j_data = 0, j_yLines = None\<rparr>" "[]"
        example_env example_slice]
    by simp
  show ?thesis using ne 1 2 3 by simp
qed

lemma scatCatViz_no_series:
  "fst (scatCatViz env slice (Some json) (state_with [])) = Some TypeError \<and>
   container (snd (scatCatViz env slice (Some json) (state_with []))) = None"
  by (rule scatCatViz_empty) (simp add: state_with_def)

text \<open>
  C7 says that \<^verbatim>\<open>yLines=[3]\<close> draws exactly one full-width line at \<^verbatim>\<open>yScale(3)\<close>.  For
  the dataset with no Series the call throws the TypeError of the tick computation
  before it draws anything, and the container has no line.
\<close>

theorem reference_line_lost_on_empty_dataset:
  "fst (scatCatViz example_env example_slice (Some \<lparr>j_data = 0, j_yLines = Some [3]\<rparr>)
          (state_with [])) = Some TypeError \<and>
   reference_lines (container (snd (scatCatViz example_env example_slice
      (Some \<lparr>j_data = 0, j_yLines = Some [3]\<rparr>) (state_with [])))) = []"
  by (simp add: scatCatViz_no_series reference_lines_def)

subsection \<open>The dataset after a render\<close>



subsection \<open>The comparator on a Series with no Point\<close>

text \<open>
  C10: for a Series whose \<^verbatim>\<open>values\<close> is empty \<^verbatim>\<open>pickFirst\<close> returns the default
  \<^verbatim>\<open>null\<close>, whose number is 0 (not NaN), so the comparator of \<^verbatim>\<open>sortData\<close> compares the
  Series, on either side, as the number 0 against the number of the other Series.
\<close>

theorem empty_series_compares_as_zero:
  assumes "s_values a = []"
  shows "pickFirst (s_values a) sortBy Null = Null \<and>
         to_number strnum (pickFirst (s_values a) sortBy Null) = Fin 0 \<and>
         comparator strnum sortBy a b =
           js_sub (Fin 0) (to_number strnum (pickFirst (s_values b) sortBy Null)) \<and>
         comparator strnum sortBy b a =
           js_sub (to_number strnum (pickFirst (s_values b) sortBy Null)) (Fin 0)"
  using assms by (simp add: pickFirst_def comparator_def)

theorem empty_series_compares_as_zero_witness:
  "s_values (numbered_data ! 2) = [] \<and>
   comparator decimal_number color (numbered_data ! 2) (numbered_data ! 0) = Fin (- 2) \<and>
   comparator decimal_number color (numbered_data ! 0) (numbered_data ! 2) = Fin 2"
proof -
  have e: "s_values (numbered_data ! 2) = []" by (simp add: numbered_data_def)
  have k: "to_number decimal_number (pickFirst (s_values (numbered_data ! 0)) color Null) = Fin 2"
    by code_simp
  show ?thesis
    using e empty_series_compares_as_zero [OF e, of color decimal_number "numbered_data ! 0"]
    by (simp add: k)
qed

subsection \<open>The order of the Series and their horizontal positions\<close>











lemma index_of_nth:
  "i < length xs \<Longrightarrow> distinct xs \<Longrightarrow> index_of (xs ! i) xs = Some i"
proof (induction xs arbitrary: i)
  case Nil
  then show ?case by simp
next
  case (Cons x xs)
  show ?case
  proof (cases i)
    case 0
    then show ?thesis by simp
  next
    case (Suc j)
    with Cons.prems have "xs ! j \<noteq> x" by auto
    with Suc Cons show ?thesis by simp
  qed
qed










subsection \<open>The legend keys\<close>

lemma first_seen_from_cong:
  "set seen = set seen' \<Longrightarrow> first_seen_from seen xs = first_seen_from seen' xs"
proof (induction xs arbitrary: seen seen')
  case Nil
  show ?case by simp
next
  case (Cons x xs)
  have 1: "first_seen_from (x # seen) xs = first_seen_from (x # seen') xs"
    by (rule Cons.IH) (simp add: Cons.prems)
  have 2: "first_seen_from seen xs = first_seen_from seen' xs"
    by (rule Cons.IH) (rule Cons.prems)
  show ?case using 1 2 Cons.prems by simp
qed

lemma set_first_seen_from: "set (first_seen_from seen xs) = set xs - set seen"
  by (induction xs arbitrary: seen) auto

lemma distinct_first_seen_from: "distinct (first_seen_from seen xs)"
  by (induction xs arbitrary: seen) (auto simp: set_first_seen_from)

lemma set_first_seen: "set (first_seen xs) = set xs"
  by (simp add: first_seen_def set_first_seen_from)

lemma distinct_first_seen: "distinct (first_seen xs)"
  by (simp add: first_seen_def distinct_first_seen_from)

lemma d3_map_escape_cases:
  "(d3_map_escape k = k \<and> (k = [] \<or> hd k \<noteq> d3_map_zero)) \<or> d3_map_escape k = d3_map_zero # k"
  by (simp add: d3_map_escape_def)

lemma d3_map_escape_inj:
  assumes "d3_map_escape a = d3_map_escape b"
  shows "a = b"
  using assms d3_map_escape_cases[of a] d3_map_escape_cases[of b]
  by (elim disjE conjE) auto

lemma d3_map_unescape_escape: "d3_map_unescape (d3_map_escape k) = k"
  by (auto simp: d3_map_escape_def d3_map_unescape_def)

lemma escape_mem: "d3_map_escape k \<in> d3_map_escape ` S \<longleftrightarrow> k \<in> S"
  using d3_map_escape_inj by blast

lemma d3_set_from_first_seen:
  "d3_set_from (map d3_map_escape seen) xs =
     map d3_map_escape (seen @ first_seen_from seen xs)"
proof (induction xs arbitrary: seen)
  case Nil
  show ?case by simp
next
  case (Cons x xs)
  show ?case
  proof (cases "x \<in> set seen")
    case True
    then have "set_add (map d3_map_escape seen) x = map d3_map_escape seen"
      by (simp add: set_add_def)
    with True Cons show ?thesis by simp
  next
    case False
    then have "set_add (map d3_map_escape seen) x = map d3_map_escape (seen @ [x])"
      by (simp add: set_add_def escape_mem)
    moreover have "first_seen_from (seen @ [x]) xs = first_seen_from (x # seen) xs"
      by (rule first_seen_from_cong) auto
    ultimately show ?thesis using False Cons[of "seen @ [x]"] by simp
  qed
qed

lemma d3_set_first_seen: "d3_set xs = map d3_map_escape (first_seen xs)"
  using d3_set_from_first_seen[of "[]" xs] by (simp add: d3_set_def first_seen_def)

lemma digit_of_zero: "digit_of d3_map_zero = None"
  by (simp add: digit_of_def d3_map_zero_def)

lemma parse_digits_Some_digits:
  "parse_digits acc s = Some n \<Longrightarrow> \<forall>c \<in> set s. digit_of c \<noteq> None"
  by (induction s arbitrary: acc) (auto split: option.splits)

lemma array_index_digits:
  assumes "is_array_index s"
  shows "s \<noteq> [] \<and> (\<forall>c \<in> set s. digit_of c \<noteq> None)"
  using assms parse_digits_Some_digits[of 0 s]
  by (auto simp: is_array_index_def index_value_def split: if_splits option.splits)

lemma digit_of_underscore: "digit_of (CHR ''_'') = None"
  by (simp add: digit_of_def)

lemma array_index_escape_id:
  assumes "is_array_index k"
  shows "d3_map_escape k = k"
proof -
  from array_index_digits[OF assms] have ne: "k \<noteq> []" and dg: "\<forall>c \<in> set k. digit_of c \<noteq> None"
    by simp_all
  have "hd k \<noteq> d3_map_zero" using ne dg digit_of_zero by (cases k) auto
  moreover have "k \<noteq> ''__proto__''" using dg digit_of_underscore by auto
  ultimately show ?thesis by (simp add: d3_map_escape_def)
qed

lemma array_index_unescape_id:
  assumes "is_array_index k"
  shows "d3_map_unescape k = k"
proof -
  from array_index_digits[OF assms] have ne: "k \<noteq> []" and dg: "\<forall>c \<in> set k. digit_of c \<noteq> None"
    by simp_all
  have "hd k \<noteq> d3_map_zero" using ne dg digit_of_zero by (cases k) auto
  then show ?thesis by (simp add: d3_map_unescape_def)
qed

lemma is_array_index_escape: "is_array_index (d3_map_escape k) \<longleftrightarrow> is_array_index k"
proof
  assume a: "is_array_index (d3_map_escape k)"
  show "is_array_index k"
  proof (cases "d3_map_escape k = k")
    case True
    with a show ?thesis by simp
  next
    case False
    then have "d3_map_escape k = d3_map_zero # k" by (simp add: d3_map_escape_def split: if_splits)
    with array_index_digits[OF a] digit_of_zero show ?thesis by auto
  qed
next
  assume "is_array_index k"
  then show "is_array_index (d3_map_escape k)" by (simp add: array_index_escape_id)
qed

lemma set_values_escape:
  "set_values (map d3_map_escape ks) =
     sort_key index_num (filter is_array_index ks) @ filter (\<lambda>k. \<not> is_array_index k) ks"
proof -
  have idx: "filter is_array_index (map d3_map_escape ks) = filter is_array_index ks"
  proof -
    have "filter is_array_index (map d3_map_escape ks) =
          map d3_map_escape (filter is_array_index ks)"
      by (simp add: filter_map comp_def is_array_index_escape)
    also have "\<dots> = filter is_array_index ks"
      by (rule map_idI) (simp add: array_index_escape_id)
    finally show ?thesis .
  qed
  have other: "filter (\<lambda>k. \<not> is_array_index k) (map d3_map_escape ks) =
      map d3_map_escape (filter (\<lambda>k. \<not> is_array_index k) ks)"
    by (simp add: filter_map comp_def is_array_index_escape)
  have "map d3_map_unescape (sort_key index_num (filter is_array_index ks)) =
      sort_key index_num (filter is_array_index ks)"
    by (rule map_idI) (simp add: array_index_unescape_id)
  then show ?thesis
    by (simp add: set_values_def for_in_def idx other d3_map_unescape_escape comp_def)
qed

lemma set_values_d3_set:
  "set_values (d3_set xs) =
     sort_key index_num (filter is_array_index (first_seen xs))
     @ filter (\<lambda>k. \<not> is_array_index k) (first_seen xs)"
  by (simp add: d3_set_first_seen set_values_escape)

lemma set_set_values: "set (set_values (d3_set xs)) = set xs"
  by (auto simp: set_values_d3_set set_first_seen)

lemma distinct_set_values: "distinct (set_values (d3_set xs))"
proof -
  have "mset (set_values (d3_set xs)) = mset (first_seen xs)"
    by (simp add: set_values_d3_set)
  then show ?thesis using distinct_first_seen[of xs] by (metis mset_eq_imp_distinct_iff)
qed

lemma length_set_values: "length (set_values (d3_set xs)) = card (set xs)"
  using distinct_card[OF distinct_set_values[of xs]] by (simp add: set_set_values)

lemma set_values_no_index:
  assumes "\<forall>v \<in> set xs. \<not> is_array_index v"
  shows "set_values (d3_set xs) = first_seen xs"
proof -
  have "filter is_array_index (first_seen xs) = []"
    using assms by (simp add: filter_empty_conv set_first_seen)
  moreover have "filter (\<lambda>k. \<not> is_array_index k) (first_seen xs) = first_seen xs"
    using assms by (simp add: set_first_seen)
  ultimately show ?thesis by (simp add: set_values_d3_set)
qed

lemma length_place_keys:
  "length (adjustments (place_keys lw st ws)) = length (adjustments st) + length ws"
  by (induction ws arbitrary: st) (simp_all add: place_key_def Let_def)

lemma length_legend_adjustments: "length (legend_adjustments lw ws) = length ws"
  by (simp add: legend_adjustments_def length_place_keys)

lemma map_filter_positioned:
  assumes "length ks = length ps" and "\<And>k pos. f (k\<lparr>k_transform := Some pos\<rparr>) = f k"
  shows "map f (filter (\<lambda>k. k_class k = cl)
           (map (\<lambda>(k, pos). k\<lparr>k_transform := Some pos\<rparr>) (zip ks ps))) =
         map f (filter (\<lambda>k. k_class k = cl) ks)"
  using assms(1) by (induction ks ps rule: list_induct2) (simp_all add: assms(2))

lemma keys_fixUpLegend:
  assumes "\<And>k pos. f (k\<lparr>k_transform := Some pos\<rparr>) = f k"
  shows "map f (filter (\<lambda>k. k_class k = cl) (legend_keys (fixUpLegend env lg ph lw xh))) =
         map f (filter (\<lambda>k. k_class k = cl) (legend_keys lg))"
  unfolding fixUpLegend_def Let_def
  by (simp add: map_filter_positioned[OF _ assms] length_legend_adjustments)

lemma color_keys_renderLegend:
  assumes "\<And>k pos. f (k\<lparr>k_transform := Some pos\<rparr>) = f k"
  shows "map f (filter (\<lambda>k. k_class k = ColorKey) (legend_keys (renderLegend env fd pr))) =
     map (\<lambda>d. f \<lparr>k_class = ColorKey, k_symbol = Circle (getColorFromScheme env d (scheme fd)),
                  k_text = d, k_transform = None\<rparr>) (colorValues pr)"
  unfolding renderLegend_def Let_def
  by (simp add: keys_fixUpLegend[OF assms] filter_map comp_def)

lemma shape_keys_renderLegend:
  assumes "\<And>k pos. f (k\<lparr>k_transform := Some pos\<rparr>) = f k"
  shows "map f (filter (\<lambda>k. k_class k = ShapeKey) (legend_keys (renderLegend env fd pr))) =
     map (\<lambda>d. f \<lparr>k_class = ShapeKey,
                  k_symbol = SymbolPath (fst (ordinal_call (shapeScale pr) d)),
                  k_text = d, k_transform = None\<rparr>) (shapeValues pr)"
  unfolding renderLegend_def Let_def
  by (simp add: keys_fixUpLegend[OF assms] filter_map comp_def)

lemma shapeScale_by_position:
  assumes "distinct sv" "i < length sv"
  shows "fst (ordinal_call (ordinal_range (domain_push [] sv) symbolTypes) (sv ! i)) =
         Some (symbolTypes ! (i mod length symbolTypes))"
proof -
  have "domain_push [] sv = sv" using domain_push_distinct[of "[]" sv] assms(1) by simp
  moreover have "index_of (sv ! i) sv = Some i" using assms by (simp add: index_of_nth)
  moreover have "symbolTypes \<noteq> []" by (simp add: symbolTypes_def)
  ultimately show ?thesis by (simp add: ordinal_call_def ordinal_range_def range_at_def)
qed

lemma map_by_index: "map g xs = map (\<lambda>i. g (xs ! i)) [0..<length xs]"
proof -
  have "map (\<lambda>i. g (xs ! i)) [0..<length xs] = map g (map (\<lambda>i. xs ! i) [0..<length xs])"
    by (simp only: map_map comp_def)
  also have "\<dots> = map g xs" by (simp only: map_nth)
  finally show ?thesis by (rule sym)
qed

lemma set_all_points_sorted: "set (all_points (array_sort cmp ds)) = set (all_points ds)"
  by (simp add: all_points_def set_array_sort)

text \<open>
  C8, as amended: after a call of \<^verbatim>\<open>scatCatViz\<close> the color keys of the legend are as
  many as the distinct color values of the Points, and the shape keys as many as the
  distinct shape values.  The keys of either kind list the values without repetition:
  first the values that are array indices (canonical decimal numerals below \<open>2\<^sup>3\<^sup>2 - 1\<close>)
  in ascending numeric order, then the other values in the order in which the scan of
  the sorted dataset sees them first; so the order is the first-seen order when no value
  is an array index.  The symbol of a color key is a circle in the color the color lookup
  gives for its value, and the symbol of the i-th shape key is the i-th symbol type,
  counted cyclically.
\<close>

theorem legend_keys_of_distinct_values:
  "let strnum = StringToNumber env;
       fd = formData slice;
       data = heap st (j_data json);
       sortedArr = array_sort (comparator strnum color) data;
       colors = map p_color (all_points sortedArr);
       shapes = map p_shape (all_points sortedArr);
       c = container (snd (scatCatViz env slice (Some json) st));
       colorKeys = keys_of ColorKey c;
       shapeKeys = keys_of ShapeKey c
   in length colorKeys = card (p_color ` set (all_points data)) \<and>
      length shapeKeys = card (p_shape ` set (all_points data)) \<and>
      map k_text colorKeys =
        sort_key index_num (filter is_array_index (first_seen colors))
        @ filter (\<lambda>v. \<not> is_array_index v) (first_seen colors) \<and>
      map k_text shapeKeys =
        sort_key index_num (filter is_array_index (first_seen shapes))
        @ filter (\<lambda>v. \<not> is_array_index v) (first_seen shapes) \<and>
      ((\<forall>v \<in> set colors. \<not> is_array_index v) \<longrightarrow> map k_text colorKeys = first_seen colors) \<and>
      ((\<forall>v \<in> set shapes. \<not> is_array_index v) \<longrightarrow> map k_text shapeKeys = first_seen shapes) \<and>
      map k_symbol colorKeys =
        map (\<lambda>v. Circle (getColorFromScheme env v (scheme fd))) (map k_text colorKeys) \<and>
      map k_symbol shapeKeys =
        map (\<lambda>i. SymbolPath (Some (symbolTypes ! (i mod length symbolTypes))))
          [0..<length shapeKeys]"
proof -
  let ?strnum = "StringToNumber env"
  let ?fd = "formData slice"
  let ?data = "heap st (j_data json)"
  let ?sorted = "array_sort (comparator ?strnum color) ?data"
  let ?colors = "map p_color (all_points ?sorted)"
  let ?shapes = "map p_shape (all_points ?sorted)"
  let ?c = "container (snd (scatCatViz env slice (Some json) st))"
  let ?cv = "set_values (d3_set ?colors)"
  let ?sv = "set_values (d3_set ?shapes)"
  have keys: "map k_text (keys_of ColorKey ?c) = ?cv \<and>
      map k_text (keys_of ShapeKey ?c) = ?sv \<and>
      map k_symbol (keys_of ColorKey ?c) =
        map (\<lambda>v. Circle (getColorFromScheme env v (scheme ?fd))) ?cv \<and>
      map k_symbol (keys_of ShapeKey ?c) =
        map (\<lambda>i. SymbolPath (Some (symbolTypes ! (i mod length symbolTypes)))) [0..<length ?sv]"
  proof (cases "?data = []")
    case True
    then have "?cv = []" "?sv = []"
      by (simp_all add: all_points_def d3_set_def set_values_def for_in_def)
    with scatCatViz_empty[OF True, of env slice] show ?thesis
      by (simp add: keys_of_def)
  next
    case False
    from computedProps_nonempty[where h = "heap st" and data = "j_data json", OF False,
      of ?strnum ?fd "sl_width slice" "sl_height slice"]
    obtain pr0 where pr0:
      "fst (computedProps ?strnum ?fd (j_data json)
              (sl_width slice) (sl_height slice) (heap st)) = Inr pr0"
      "colorValues pr0 = set_values (d3_set (concat (map (\<lambda>d. map p_color (s_values d)) ?sorted)))"
      "shapeValues pr0 = set_values (d3_set (concat (map (\<lambda>d. map p_shape (s_values d)) ?sorted)))"
      "shapeScale pr0 = ordinal_range (domain_push [] (shapeValues pr0)) symbolTypes"
      by blast
    from scatCatViz_nonempty[OF False, of env slice] obtain pr s where s:
      "fst (computedProps ?strnum ?fd (j_data json)
              (sl_width slice) (sl_height slice) (heap st)) = Inr pr"
      "?c = Some s" "legend s = renderLegend env ?fd pr"
      by blast
    from pr0(1) s(1) have pr: "pr = pr0" by simp
    have cv: "colorValues pr = ?cv" and sv: "shapeValues pr = ?sv"
      using pr0(2,3) by (simp_all add: pr all_points_def map_concat comp_def)
    have sc: "shapeScale pr = ordinal_range (domain_push [] ?sv) symbolTypes"
      using pr0(4) sv by (simp add: pr)
    have 1: "map k_text (keys_of ColorKey ?c) = ?cv"
      by (simp add: keys_of_def s(2,3) color_keys_renderLegend cv)
    have 2: "map k_text (keys_of ShapeKey ?c) = ?sv"
      by (simp add: keys_of_def s(2,3) shape_keys_renderLegend sv)
    have 3: "map k_symbol (keys_of ColorKey ?c) =
        map (\<lambda>v. Circle (getColorFromScheme env v (scheme ?fd))) ?cv"
      by (simp add: keys_of_def s(2,3) color_keys_renderLegend cv)
    have "map k_symbol (keys_of ShapeKey ?c) =
        map (\<lambda>d. SymbolPath (fst (ordinal_call (shapeScale pr) d))) ?sv"
      by (simp add: keys_of_def s(2,3) shape_keys_renderLegend sv)
    also have "\<dots> = map (\<lambda>i. SymbolPath (fst (ordinal_call (shapeScale pr) (?sv ! i))))
        [0..<length ?sv]"
      by (rule map_by_index)
    also have "\<dots> = map (\<lambda>i. SymbolPath (Some (symbolTypes ! (i mod length symbolTypes))))
        [0..<length ?sv]"
      by (rule map_cong) (simp_all add: sc shapeScale_by_position distinct_set_values)
    finally show ?thesis using 1 2 3 by simp
  qed
  have card_c: "length ?cv = card (p_color ` set (all_points ?data))"
    by (simp add: length_set_values set_all_points_sorted)
  have card_s: "length ?sv = card (p_shape ` set (all_points ?data))"
    by (simp add: length_set_values set_all_points_sorted)
  have len_c: "length (keys_of ColorKey ?c) = length ?cv"
    using keys by (metis length_map)
  have len_s: "length (keys_of ShapeKey ?c) = length ?sv"
    using keys by (metis length_map)
  show ?thesis
    unfolding Let_def
    using keys card_c card_s len_c len_s
    by (simp add: set_values_no_index flip: set_values_d3_set)
qed


theorem legend_keys_of_distinct_values_witness:
  "\<not> is_array_index ''a'' \<and> \<not> is_array_index ''b'' \<and>
   \<not> is_array_index ''x'' \<and> \<not> is_array_index ''y'' \<and>
   map k_text (keys_of ColorKey (container (snd (scatCatViz example_env example_slice
      (Some \<lparr>j_data = 0, j_yLines = None\<rparr>) (state_with example_data))))) = [''a'', ''b''] \<and>
   map k_text (keys_of ShapeKey (container (snd (scatCatViz example_env example_slice
      (Some \<lparr>j_data = 0, j_yLines = None\<rparr>) (state_with example_data))))) = [''x'', ''y''] \<and>
   map k_symbol (keys_of ShapeKey (container (snd (scatCatViz example_env example_slice
      (Some \<lparr>j_data = 0, j_yLines = None\<rparr>) (state_with example_data))))) =
     [SymbolPath (Some ''circle''), SymbolPath (Some ''cross'')]"
proof -
  let ?json = "\<lparr>j_data = 0, j_yLines = None\<rparr>"
  let ?c = "container (snd (scatCatViz example_env example_slice (Some ?json)
      (state_with example_data)))"
  have na: "\<not> is_array_index ''a''" "\<not> is_array_index ''b''"
    "\<not> is_array_index ''x''" "\<not> is_array_index ''y''"
    by code_simp+
  have sorted: "array_sort (comparator decimal_number color) example_data = example_data"
    by code_simp
  have colors: "map p_color (all_points example_data) = [''a'', ''b'']"
    and shapes: "map p_shape (all_points example_data) = [''x'', ''y'']"
    by (simp_all add: example_data_def all_points_def)
  have fs: "first_seen [''a'', ''b''] = [''a'', ''b'']" "first_seen [''x'', ''y''] = [''x'', ''y'']"
    by (simp_all add: first_seen_def)
  have two: "length (keys_of ShapeKey ?c) = 2"
    by code_simp
  have d: "heap (state_with example_data) (j_data ?json) = example_data"
    by (simp add: state_with_def)
  have e: "StringToNumber example_env = decimal_number"
    by (simp add: example_env_def)
  note T = legend_keys_of_distinct_values [of example_env example_slice
      "state_with example_data" ?json, unfolded Let_def d e sorted colors shapes fs]
  have hc: "\<forall>v \<in> set [''a'', ''b'']. \<not> is_array_index v"
    and hs: "\<forall>v \<in> set [''x'', ''y'']. \<not> is_array_index v"
    using na by simp_all
  from T hc have 1: "map k_text (keys_of ColorKey ?c) = [''a'', ''b'']" by blast
  from T hs have 2: "map k_text (keys_of ShapeKey ?c) = [''x'', ''y'']" by blast
  from T have "map k_symbol (keys_of ShapeKey ?c) =
      map (\<lambda>i. SymbolPath (Some (symbolTypes ! (i mod length symbolTypes))))
        [0..<length (keys_of ShapeKey ?c)]"
    by blast
  then have 3: "map k_symbol (keys_of ShapeKey ?c) =
      [SymbolPath (Some ''circle''), SymbolPath (Some ''cross'')]"
    by (simp add: two symbolTypes_def upt_rec)
  from na 1 2 3 show ?thesis by simp
qed

text \<open>
  C8 as stated fails: for one Series whose Points have the colors 2 and 1, in this
  order, the color keys are 1 and 2, not the values in first-seen order.
\<close>

theorem legend_order_not_first_seen:
  "map k_text (keys_of ColorKey (container (snd (scatCatViz example_env example_slice
      (Some \<lparr>j_data = 0, j_yLines = None\<rparr>) (state_with swapped_data))))) = [''1'', ''2''] \<and>
   first_seen (map p_color (all_points swapped_data)) = [''2'', ''1''] \<and>
   array_sort (comparator decimal_number color) swapped_data = swapped_data"
  by code_simp

subsection \<open>The scales in a render\<close>

lemma index_of_mem: "x \<in> set xs \<Longrightarrow> \<exists>i. index_of x xs = Some i"
  by (induction xs) auto

lemma ordinal_call_in_domain:
  "x \<in> set (o_domain sc) \<Longrightarrow> snd (ordinal_call sc x) = sc"
  using index_of_mem[of x "o_domain sc"] by (auto simp: ordinal_call_def)

text \<open>
  The calls of the scales in a render never extend a domain, which is why the drawing
  can drop the scale a call returns: the shape scale is only called on shapes of the
  dataset and the horizontal scale only on indices of Series.
\<close>

lemma scales_keep_their_domain:
  assumes "fst (computedProps strnum fd data width height h) = Inr pr"
    and "d \<in> set (all_points (array_sort (comparator strnum color) (h data)))"
    and "i < length (h data)"
  shows "snd (ordinal_call (shapeScale pr) (p_shape d)) = shapeScale pr \<and>
         snd (ordinal_call (xScale pr) i) = xScale pr"
proof -
  let ?sorted = "array_sort (comparator strnum color) (h data)"
  have ne: "h data \<noteq> []" using assms(3) by auto
  from computedProps_nonempty[where h = h and data = data, OF ne, of strnum fd width height]
  obtain pr0 where pr0: "fst (computedProps strnum fd data width height h) = Inr pr0"
    "xScale pr0 = rangePoints (d3_range (length (h data))) (0, width - 80)"
    "shapeValues pr0 = set_values (d3_set (concat (map (\<lambda>d. map p_shape (s_values d)) ?sorted)))"
    "shapeScale pr0 = ordinal_range (domain_push [] (shapeValues pr0)) symbolTypes"
    by blast
  from assms(1) pr0(1) have pr: "pr = pr0" by simp
  have "p_shape d \<in> set (concat (map (\<lambda>d. map p_shape (s_values d)) ?sorted))"
    using assms(2) by (auto simp: all_points_def)
  then have "p_shape d \<in> set (shapeValues pr)"
    by (simp add: pr pr0(3) set_set_values)
  moreover have "o_domain (shapeScale pr) = shapeValues pr"
    using domain_push_distinct[of "[]" "shapeValues pr"] distinct_set_values
    by (simp add: pr pr0(3,4) ordinal_range_def)
  ultimately have 1: "snd (ordinal_call (shapeScale pr) (p_shape d)) = shapeScale pr"
    by (simp add: ordinal_call_in_domain)
  have "i \<in> set (o_domain (xScale pr))"
    using assms(3) by (simp add: pr pr0(2) o_domain_rangePoints d3_range_def)
  then have 2: "snd (ordinal_call (xScale pr) i) = xScale pr"
    by (rule ordinal_call_in_domain)
  from 1 2 show ?thesis ..
qed

end
